theory Spec2Isabelle
  imports Complex_Main
begin

section \<open>Data model of the catalog store\<close>

text \<open>
  The tables are those of the migration \<^verbatim>\<open>20260101094057_init_catalog\<close>. A nullable column is an
  \<open>option\<close>. Timestamps are readings of a clock; \<^verbatim>\<open>new Date(s)\<close> is kept as the constructor
  \<open>Date\<close> applied to the text it parses, and stands for what the \<^verbatim>\<open>DATE\<close> column holds of
  it. A \<^verbatim>\<open>DECIMAL\<close> column is a rational with two decimal places.
\<close>

type_synonym timestamp = nat

datatype js_date = Date string

datatype json = JNull | JBool bool | JNum int | JStr string
  | JArr "json list" | JObj "(string \<times> json) list"

datatype BookFormat = HARDCOVER | PAPERBACK | EBOOK | AUDIOBOOK

record book =
  id' :: string
  isbn :: "string option"
  isbn13 :: "string option"
  title :: string
  subtitle :: "string option"
  description :: string
  publisher :: "string option"
  publicationDate :: "js_date option"
  edition :: "string option"
  language :: string
  pageCount :: "int option"
  format :: BookFormat
  price :: rat
  discountPrice :: "rat option"
  stockQuantity :: int
  coverImageUrl :: string
  previewUrl :: "string option"
  averageRating :: rat
  ratingsCount :: int
  additionalInfo :: json
  isFeatured :: bool
  isActive :: bool
  createdAt :: timestamp
  updatedAt :: timestamp

text \<open>Of Author and Category only the columns that the service reads are kept.\<close>

record author =
  id' :: string
  name :: string

record category =
  id' :: string
  name :: string
  slug :: string

record BookAuthor =
  bookId :: string
  authorId :: string
  authorOrder :: int

record BookCategory =
  bookId :: string
  categoryId :: string
  isPrimary :: bool

text \<open>
  Every call of the Prisma client is recorded in \<open>oplog\<close>, in the order in which the service
  issues it, so that statements about which queries run (and which do not) can be made.
\<close>

datatype isbn_cond = IsbnIs string | Isbn13Is string

datatype store_op =
    OpFindFirst "isbn_cond list"
  | OpFindUnique string
  | OpFindMany int int
  | OpCount
  | OpCreate
  | OpUpdate string
  | OpDelete string

record store =
  book_rows :: "book list"
  author_rows :: "author list"
  category_rows :: "category list"
  bookAuthor_rows :: "BookAuthor list"
  bookCategory_rows :: "BookCategory list"
  oplog :: "store_op list"

definition tables ::
  "store \<Rightarrow> book list \<times> author list \<times> category list \<times> BookAuthor list \<times> BookCategory list" where
  "tables s = (book_rows s, author_rows s, category_rows s, bookAuthor_rows s, bookCategory_rows s)"

definition logop :: "store_op \<Rightarrow> store \<Rightarrow> store" where
  "logop op s = s\<lparr>oplog := oplog s @ [op]\<rparr>"

section \<open>Errors\<close>

text \<open>
  The typed failures of \<^verbatim>\<open>errors.js\<close>, each with its message. A failure raised by the Prisma
  client is none of them; it reaches the boundary as an uncategorised error.
\<close>

datatype prisma_error =
    PrismaValidationError
  | UniqueConstraintViolation
  | ForeignKeyViolation
  | RecordNotFound
  | ValueOutOfRange

record field_error =
  field :: "string option"
  message :: string
  "value" :: "json option"

datatype app_error =
    ValidationError string "field_error list"
  | NotFoundError string
  | ConflictError string
  | UnauthorizedError string
  | ForbiddenError string
  | PrismaError prisma_error

definition NotFound :: "string \<Rightarrow> string \<Rightarrow> app_error" where
  "NotFound resource identifier =
     NotFoundError (if identifier \<noteq> []
        then resource @ '' with identifier '' @ [CHR 0x27] @ identifier @ [CHR 0x27] @ '' not found''
        else resource @ '' not found'')"

fun statusCode :: "app_error \<Rightarrow> nat" where
  "statusCode (ValidationError _ _) = 400"
| "statusCode (NotFoundError _) = 404"
| "statusCode (ConflictError _) = 409"
| "statusCode (UnauthorizedError _) = 401"
| "statusCode (ForbiddenError _) = 403"
| "statusCode (PrismaError _) = 500"

section \<open>Payloads\<close>

text \<open>
  \<open>bookData\<close> is the request body handed to \<^verbatim>\<open>createBook\<close> and \<^verbatim>\<open>updateBook\<close>. It is an
  open object: every property may be absent (\<open>None\<close>), and a present one carries a value of
  the kind the column holds; a number is the decimal that the JavaScript number prints as.
  A client is free to send \<^verbatim>\<open>averageRating\<close> and \<^verbatim>\<open>ratingsCount\<close>, the identifier, the two
  timestamps, the relations \<^verbatim>\<open>authors\<close> and \<^verbatim>\<open>categories\<close> (whose values are nested writes
  of the client, kept as they come), and keys that name neither a column nor a relation of
  Book: those are in \<open>rest\<close>. \<^verbatim>\<open>createBook\<close> reads the properties it names and no other;
  \<^verbatim>\<open>updateBook\<close> passes on whatever it does not name.
\<close>

record bookData =
  isbn :: "string option"
  isbn13 :: "string option"
  title :: "string option"
  subtitle :: "string option"
  description :: "string option"
  publisher :: "string option"
  publicationDate :: "string option"
  edition :: "string option"
  language :: "string option"
  pageCount :: "int option"
  format :: "string option"
  price :: "rat option"
  discountPrice :: "rat option"
  stockQuantity :: "int option"
  coverImageUrl :: "string option"
  previewUrl :: "string option"
  additionalInfo :: "json option"
  isFeatured :: "bool option"
  isActive :: "bool option"
  authorIds :: "string list option"
  categoryIds :: "string list option"
  averageRating :: "rat option"
  ratingsCount :: "int option"
  id' :: "string option"
  createdAt :: "timestamp option"
  updatedAt :: "timestamp option"
  authors :: "json option"
  categories :: "json option"
  rest :: "(string \<times> json) list"

text \<open>
  The \<^verbatim>\<open>data\<close> argument of \<^verbatim>\<open>prisma.book.create\<close>, whose keys the service writes out one by
  one, and that of \<^verbatim>\<open>prisma.book.update\<close>, which is the rest of the payload.
\<close>

record book_input =
  isbn :: "string option"
  isbn13 :: "string option"
  title :: "string option"
  subtitle :: "string option"
  description :: "string option"
  publisher :: "string option"
  publicationDate :: "js_date option"
  edition :: "string option"
  language :: "string option"
  pageCount :: "int option"
  format :: "string option"
  price :: "rat option"
  discountPrice :: "rat option"
  stockQuantity :: "int option"
  coverImageUrl :: "string option"
  previewUrl :: "string option"
  additionalInfo :: "json option"
  isFeatured :: "bool option"
  isActive :: "bool option"
  averageRating :: "rat option"
  ratingsCount :: "int option"

record book_update_input = book_input +
  id' :: "string option"
  createdAt :: "timestamp option"
  updatedAt :: "timestamp option"
  authors :: "json option"
  categories :: "json option"
  rest :: "(string \<times> json) list"

text \<open>JavaScript truthiness of an optional string: absent and the empty string are falsy.\<close>

definition truthy :: "string option \<Rightarrow> bool" where
  "truthy v = (case v of None \<Rightarrow> False | Some s \<Rightarrow> s \<noteq> [])"

text \<open>A destructuring default (\<^verbatim>\<open>language = "en"\<close>): it applies when the property is undefined.\<close>

definition dflt :: "'a \<Rightarrow> 'a option \<Rightarrow> 'a" where
  "dflt d v = (case v of None \<Rightarrow> d | Some x \<Rightarrow> x)"

section \<open>The Prisma client, as far as the service uses it\<close>

text \<open>
  The client and the database are outside the repository. The model below keeps what the
  migration fixes: the column defaults, the NOT NULL columns, the column types
  (\<^verbatim>\<open>VARCHAR(500)\<close>, \<^verbatim>\<open>INTEGER\<close>, \<^verbatim>\<open>DECIMAL(10,2)\<close>, \<^verbatim>\<open>DECIMAL(3,2)\<close>), the unique indexes on
  \<^verbatim>\<open>isbn\<close> and \<^verbatim>\<open>isbn13\<close> (NULLs never collide), the primary keys, the foreign keys of the
  join tables with their ON DELETE CASCADE and ON UPDATE CASCADE. A write is all or nothing.

  What neither the sources nor the migration fix comes from the environment: the
  identifier of a new Book and the clock; which texts \<^verbatim>\<open>new Date\<close> can parse (the client
  refuses an invalid date); the value of \<^verbatim>\<open>updatedAt\<close> after an update, which the service
  never writes and which the Prisma schema, absent from the sources, decides; and the effect
  of a nested write that a client puts under \<^verbatim>\<open>authors\<close> or \<^verbatim>\<open>categories\<close>, given the key,
  its value and the identifier of the updated Book.
\<close>

record env =
  fresh_id :: string
  now :: timestamp
  valid_date :: "string \<Rightarrow> bool"
  updatedAt_after :: "book_update_input \<Rightarrow> book \<Rightarrow> timestamp"
  nested_write :: "string \<Rightarrow> json \<Rightarrow> string \<Rightarrow> store \<Rightarrow> prisma_error + store"

record book_rel =
  row :: book
  rel_authors :: "(BookAuthor \<times> author) list option"
  rel_categories :: "(BookCategory \<times> category) list option"

fun parse_format :: "string \<Rightarrow> BookFormat option" where
  "parse_format f =
     (if f = ''HARDCOVER'' then Some HARDCOVER
      else if f = ''PAPERBACK'' then Some PAPERBACK
      else if f = ''EBOOK'' then Some EBOOK
      else if f = ''AUDIOBOOK'' then Some AUDIOBOOK
      else None)"

fun cond_matches :: "book \<Rightarrow> isbn_cond \<Rightarrow> bool" where
  "cond_matches b (IsbnIs x) = (book.isbn b = Some x)"
| "cond_matches b (Isbn13Is x) = (book.isbn13 b = Some x)"

definition prisma_book_findFirst :: "isbn_cond list \<Rightarrow> store \<Rightarrow> book option \<times> store" where
  "prisma_book_findFirst conds s =
     (find (\<lambda>b. list_ex (cond_matches b) conds) (book_rows s), logop (OpFindFirst conds) s)"

text \<open>
  \<^verbatim>\<open>include: { authors: { include: { author: true }, orderBy: { authorOrder: "asc" } },
  categories: { include: { category: true }, orderBy: { isPrimary: "desc" } } }\<close>.
  Rows that compare equal keep their table order.
\<close>

definition primary_first :: "(BookCategory \<times> category) list \<Rightarrow> (BookCategory \<times> category) list" where
  "primary_first xs = filter (\<lambda>(bc, c). isPrimary bc) xs @ filter (\<lambda>(bc, c). \<not> isPrimary bc) xs"

definition with_relations :: "store \<Rightarrow> book \<Rightarrow> book_rel" where
  "with_relations s b =
     \<lparr>row = b,
      rel_authors = Some (sort_key (\<lambda>(ba, a). authorOrder ba)
        (List.map_filter
           (\<lambda>ba. map_option (Pair ba) (find (\<lambda>a. author.id' a = authorId ba) (author_rows s)))
           (filter (\<lambda>ba. BookAuthor.bookId ba = book.id' b) (bookAuthor_rows s)))),
      rel_categories = Some (primary_first
        (List.map_filter
           (\<lambda>bc. map_option (Pair bc) (find (\<lambda>c. category.id' c = categoryId bc) (category_rows s)))
           (filter (\<lambda>bc. BookCategory.bookId bc = book.id' b) (bookCategory_rows s))))\<rparr>"

definition prisma_book_findUnique :: "string \<Rightarrow> store \<Rightarrow> book option \<times> store" where
  "prisma_book_findUnique i s =
     (find (\<lambda>b. book.id' b = i) (book_rows s), logop (OpFindUnique i) s)"

definition unique_ok :: "string \<Rightarrow> 'a book_input_scheme \<Rightarrow> book list \<Rightarrow> bool" where
  "unique_ok i d rows =
     (\<not> list_ex (\<lambda>b. book.id' b \<noteq> i \<and>
          ((book_input.isbn d \<noteq> None \<and> book.isbn b = book_input.isbn d) \<or>
           (book_input.isbn13 d \<noteq> None \<and> book.isbn13 b = book_input.isbn13 d))) rows)"

text \<open>
  What a column makes of a value. A \<^verbatim>\<open>DECIMAL(p,2)\<close> column rounds to two places, a tie away
  from zero, and refuses a value whose rounded form has more than \<open>p\<close> digits; an
  \<^verbatim>\<open>INTEGER\<close> column holds 32 bits; \<^verbatim>\<open>title\<close> holds 500 characters.
\<close>

definition round_half_away :: "rat \<Rightarrow> int" where
  "round_half_away x = (if 0 \<le> x then \<lfloor>x + 1 / 2\<rfloor> else - \<lfloor>- x + 1 / 2\<rfloor>)"

definition to_scale2 :: "rat \<Rightarrow> rat" where
  "to_scale2 v = rat_of_int (round_half_away (v * 100)) / 100"

definition fits_decimal :: "nat \<Rightarrow> rat \<Rightarrow> bool" where
  "fits_decimal p v = (\<bar>round_half_away (v * 100)\<bar> < 10 ^ p)"

definition fits_integer :: "int \<Rightarrow> bool" where
  "fits_integer v = (- (2 ^ 31) \<le> v \<and> v < 2 ^ 31)"

definition column_ok :: "'a book_input_scheme \<Rightarrow> bool" where
  "column_ok d =
     ((case book_input.title d of None \<Rightarrow> True | Some t \<Rightarrow> length t \<le> 500)
      \<and> (case book_input.pageCount d of None \<Rightarrow> True | Some v \<Rightarrow> fits_integer v)
      \<and> (case book_input.price d of None \<Rightarrow> True | Some v \<Rightarrow> fits_decimal 10 v)
      \<and> (case book_input.discountPrice d of None \<Rightarrow> True | Some v \<Rightarrow> fits_decimal 10 v)
      \<and> (case book_input.stockQuantity d of None \<Rightarrow> True | Some v \<Rightarrow> fits_integer v)
      \<and> (case book_input.averageRating d of None \<Rightarrow> True | Some v \<Rightarrow> fits_decimal 3 v)
      \<and> (case book_input.ratingsCount d of None \<Rightarrow> True | Some v \<Rightarrow> fits_integer v))"

definition date_ok :: "'e env_scheme \<Rightarrow> js_date option \<Rightarrow> bool" where
  "date_ok e v = (case v of None \<Rightarrow> True | Some (Date x) \<Rightarrow> valid_date e x)"

text \<open>
  \<^verbatim>\<open>prisma.book.create\<close>. The client refuses data without a required field, with a format
  outside the enum or with an invalid date; the database then refuses a value that its
  column cannot hold, a duplicate key, and a join row that points nowhere.
\<close>

definition new_row :: "'e env_scheme \<Rightarrow> book_input \<Rightarrow> prisma_error + book" where
  "new_row e d =
     (case (book_input.title d, book_input.description d,
            Option.bind (book_input.format d) parse_format,
            book_input.price d, book_input.coverImageUrl d) of
        (Some t, Some ds, Some f, Some p, Some c) \<Rightarrow>
          if \<not> date_ok e (book_input.publicationDate d) then Inl PrismaValidationError
          else if \<not> column_ok d then Inl ValueOutOfRange
          else
          Inr \<lparr>book.id' = fresh_id e,
                isbn = book_input.isbn d,
                isbn13 = book_input.isbn13 d,
                title = t,
                subtitle = book_input.subtitle d,
                description = ds,
                publisher = book_input.publisher d,
                publicationDate = book_input.publicationDate d,
                edition = book_input.edition d,
                language = dflt ''en'' (book_input.language d),
                pageCount = book_input.pageCount d,
                format = f,
                price = to_scale2 p,
                discountPrice = map_option to_scale2 (book_input.discountPrice d),
                stockQuantity = dflt 0 (book_input.stockQuantity d),
                coverImageUrl = c,
                previewUrl = book_input.previewUrl d,
                averageRating = to_scale2 (dflt 0 (book_input.averageRating d)),
                ratingsCount = dflt 0 (book_input.ratingsCount d),
                additionalInfo = dflt (JObj []) (book_input.additionalInfo d),
                isFeatured = dflt False (book_input.isFeatured d),
                isActive = dflt True (book_input.isActive d),
                createdAt = now e,
                updatedAt = now e\<rparr>
      | _ \<Rightarrow> Inl PrismaValidationError)"

definition prisma_book_create ::
  "'e env_scheme \<Rightarrow> book_input \<Rightarrow> (string \<times> int) list option \<Rightarrow> (string \<times> bool) list option
     \<Rightarrow> store \<Rightarrow> (prisma_error + book_rel) \<times> store" where
  "prisma_book_create e d authors_create categories_create s =
     (let s1 = logop OpCreate s;
          as = dflt [] authors_create;
          cs = dflt [] categories_create
      in case new_row e d of
           Inl err \<Rightarrow> (Inl err, s1)
         | Inr b \<Rightarrow>
            if list_ex (\<lambda>x. book.id' x = fresh_id e) (book_rows s)
               \<or> \<not> unique_ok (fresh_id e) d (book_rows s)
               \<or> \<not> distinct (map fst as) \<or> \<not> distinct (map fst cs)
            then (Inl UniqueConstraintViolation, s1)
            else if \<not> list_all (\<lambda>(a, n). list_ex (\<lambda>x. author.id' x = a) (author_rows s)) as
               \<or> \<not> list_all (\<lambda>(c, p). list_ex (\<lambda>x. category.id' x = c) (category_rows s)) cs
            then (Inl ForeignKeyViolation, s1)
            else
              (let s2 = s1\<lparr>book_rows := book_rows s1 @ [b],
                     bookAuthor_rows := bookAuthor_rows s1 @
                       map (\<lambda>(a, n). \<lparr>BookAuthor.bookId = fresh_id e, authorId = a, authorOrder = n\<rparr>) as,
                     bookCategory_rows := bookCategory_rows s1 @
                       map (\<lambda>(c, p). \<lparr>BookCategory.bookId = fresh_id e, categoryId = c, isPrimary = p\<rparr>) cs\<rparr>
               in (Inr (with_relations s2 b), s2)))"

text \<open>
  \<^verbatim>\<open>prisma.book.update\<close>. A key of the data that is absent leaves its column alone; a
  present one is written as its column holds it. \<open>t\<close> is the value of \<^verbatim>\<open>updatedAt\<close> after
  the write.
\<close>

definition apply_input :: "book_update_input \<Rightarrow> BookFormat option \<Rightarrow> timestamp \<Rightarrow> book \<Rightarrow> book" where
  "apply_input d f t b =
     b\<lparr>book.id' := dflt (book.id' b) (book_update_input.id' d),
       book.isbn := (case book_input.isbn d of None \<Rightarrow> book.isbn b | Some v \<Rightarrow> Some v),
       book.isbn13 := (case book_input.isbn13 d of None \<Rightarrow> book.isbn13 b | Some v \<Rightarrow> Some v),
       book.title := dflt (book.title b) (book_input.title d),
       book.subtitle := (case book_input.subtitle d of None \<Rightarrow> book.subtitle b | Some v \<Rightarrow> Some v),
       book.description := dflt (book.description b) (book_input.description d),
       book.publisher := (case book_input.publisher d of None \<Rightarrow> book.publisher b | Some v \<Rightarrow> Some v),
       book.publicationDate :=
         (case book_input.publicationDate d of None \<Rightarrow> book.publicationDate b | Some v \<Rightarrow> Some v),
       book.edition := (case book_input.edition d of None \<Rightarrow> book.edition b | Some v \<Rightarrow> Some v),
       book.language := dflt (book.language b) (book_input.language d),
       book.pageCount := (case book_input.pageCount d of None \<Rightarrow> book.pageCount b | Some v \<Rightarrow> Some v),
       book.format := dflt (book.format b) f,
       book.price := dflt (book.price b) (map_option to_scale2 (book_input.price d)),
       book.discountPrice :=
         (case book_input.discountPrice d of
            None \<Rightarrow> book.discountPrice b
          | Some v \<Rightarrow> Some (to_scale2 v)),
       book.stockQuantity := dflt (book.stockQuantity b) (book_input.stockQuantity d),
       book.coverImageUrl := dflt (book.coverImageUrl b) (book_input.coverImageUrl d),
       book.previewUrl := (case book_input.previewUrl d of None \<Rightarrow> book.previewUrl b | Some v \<Rightarrow> Some v),
       book.averageRating :=
         dflt (book.averageRating b) (map_option to_scale2 (book_input.averageRating d)),
       book.ratingsCount := dflt (book.ratingsCount b) (book_input.ratingsCount d),
       book.additionalInfo := dflt (book.additionalInfo b) (book_input.additionalInfo d),
       book.isFeatured := dflt (book.isFeatured b) (book_input.isFeatured d),
       book.isActive := dflt (book.isActive b) (book_input.isActive d),
       book.createdAt := dflt (book.createdAt b) (book_update_input.createdAt d),
       book.updatedAt := t\<rparr>"

text \<open>
  The client refuses data with a key that Book does not have, a format outside the enum or
  an invalid date, before anything is looked up.
\<close>

definition input_ok :: "'e env_scheme \<Rightarrow> book_update_input \<Rightarrow> bool" where
  "input_ok e d =
     (book_update_input.rest d = []
      \<and> (book_input.format d = None \<or> Option.bind (book_input.format d) parse_format \<noteq> None)
      \<and> date_ok e (book_input.publicationDate d))"

text \<open>The row \<open>i\<close> is replaced, and ON UPDATE CASCADE carries a new identifier to the join rows.\<close>

definition write_row :: "string \<Rightarrow> book \<Rightarrow> store \<Rightarrow> store" where
  "write_row i b' s =
     s\<lparr>book_rows := map (\<lambda>x. if book.id' x = i then b' else x) (book_rows s),
       bookAuthor_rows :=
         map (\<lambda>r. if BookAuthor.bookId r = i then r\<lparr>BookAuthor.bookId := book.id' b'\<rparr> else r)
           (bookAuthor_rows s),
       bookCategory_rows :=
         map (\<lambda>r. if BookCategory.bookId r = i then r\<lparr>BookCategory.bookId := book.id' b'\<rparr> else r)
           (bookCategory_rows s)\<rparr>"

definition nested ::
  "'e env_scheme \<Rightarrow> string \<Rightarrow> json option \<Rightarrow> string \<Rightarrow> store \<Rightarrow> prisma_error + store" where
  "nested e k w j s = (case w of None \<Rightarrow> Inr s | Some x \<Rightarrow> nested_write e k x j s)"

definition prisma_book_update ::
  "'e env_scheme \<Rightarrow> string \<Rightarrow> book_update_input \<Rightarrow> store \<Rightarrow> (prisma_error + book_rel) \<times> store" where
  "prisma_book_update e i d s =
     (let s1 = logop (OpUpdate i) s
      in if \<not> input_ok e d then (Inl PrismaValidationError, s1)
         else case find (\<lambda>b. book.id' b = i) (book_rows s) of
           None \<Rightarrow> (Inl RecordNotFound, s1)
         | Some b \<Rightarrow>
            if \<not> column_ok d then (Inl ValueOutOfRange, s1)
            else if \<not> unique_ok i d (book_rows s)
               \<or> list_ex (\<lambda>x. book.id' x \<noteq> i \<and> Some (book.id' x) = book_update_input.id' d)
                    (book_rows s)
            then (Inl UniqueConstraintViolation, s1)
            else
              (let b' = apply_input d (Option.bind (book_input.format d) parse_format)
                          (updatedAt_after e d b) b;
                   j = book.id' b'
               in case nested e ''authors'' (book_update_input.authors d) j (write_row i b' s1) of
                    Inl err \<Rightarrow> (Inl err, s1)
                  | Inr s3 \<Rightarrow>
                     (case nested e ''categories'' (book_update_input.categories d) j s3 of
                        Inl err \<Rightarrow> (Inl err, s1)
                      | Inr s4 \<Rightarrow>
                         (case find (\<lambda>x. book.id' x = j) (book_rows s4) of
                            None \<Rightarrow> (Inl RecordNotFound, s1)
                          | Some r \<Rightarrow> (Inr (with_relations s4 r), s4)))))"

definition prisma_book_delete :: "string \<Rightarrow> store \<Rightarrow> (prisma_error + unit) \<times> store" where
  "prisma_book_delete i s =
     (let s1 = logop (OpDelete i) s
      in if \<not> list_ex (\<lambda>b. book.id' b = i) (book_rows s) then (Inl RecordNotFound, s1)
         else (Inr (),
               s1\<lparr>book_rows := filter (\<lambda>b. book.id' b \<noteq> i) (book_rows s1),
                  bookAuthor_rows := filter (\<lambda>ba. BookAuthor.bookId ba \<noteq> i) (bookAuthor_rows s1),
                  bookCategory_rows := filter (\<lambda>bc. BookCategory.bookId bc \<noteq> i) (bookCategory_rows s1)\<rparr>))"

text \<open>
  \<^verbatim>\<open>findMany\<close> and \<^verbatim>\<open>count\<close> under a \<^verbatim>\<open>where\<close> clause. \<^verbatim>\<open>contains\<close> with
  \<^verbatim>\<open>mode: "insensitive"\<close> is a substring test that ignores the case of ASCII letters. The
  client refuses a negative \<^verbatim>\<open>skip\<close> and a \<^verbatim>\<open>format\<close> outside the enum; a negative
  \<^verbatim>\<open>take\<close> counts from the end.
\<close>

record book_where =
  w_title_contains :: "string option"
  w_format :: "string option"
  w_isActive :: "bool option"
  w_isFeatured :: "bool option"

definition lower_char :: "char \<Rightarrow> char" where
  "lower_char c =
     (if (65::nat) \<le> of_char c \<and> of_char c \<le> (90::nat) then char_of (of_char c + (32::nat)) else c)"

fun is_infix :: "'a list \<Rightarrow> 'a list \<Rightarrow> bool" where
  "is_infix n [] = (n = [])"
| "is_infix n (h # t) = (take (length n) (h # t) = n \<or> is_infix n t)"

definition contains_insensitive :: "string \<Rightarrow> string \<Rightarrow> bool" where
  "contains_insensitive needle hay = is_infix (map lower_char needle) (map lower_char hay)"

definition where_matches :: "book_where \<Rightarrow> book \<Rightarrow> bool" where
  "where_matches w b =
     ((case w_title_contains w of None \<Rightarrow> True | Some q \<Rightarrow> contains_insensitive q (book.title b))
      \<and> (case w_format w of None \<Rightarrow> True | Some f \<Rightarrow> parse_format f = Some (book.format b))
      \<and> (case w_isActive w of None \<Rightarrow> True | Some a \<Rightarrow> book.isActive b = a)
      \<and> (case w_isFeatured w of None \<Rightarrow> True | Some a \<Rightarrow> book.isFeatured b = a))"

definition where_ok :: "book_where \<Rightarrow> bool" where
  "where_ok w = (case w_format w of None \<Rightarrow> True | Some f \<Rightarrow> parse_format f \<noteq> None)"

definition createdAt_desc :: "book list \<Rightarrow> book list" where
  "createdAt_desc xs = rev (sort_key book.createdAt xs)"

definition prisma_book_findMany ::
  "book_where \<Rightarrow> int \<Rightarrow> int \<Rightarrow> store \<Rightarrow> (prisma_error + book_rel list) \<times> store" where
  "prisma_book_findMany w skip tk s =
     (let s1 = logop (OpFindMany skip tk) s;
          ordered = createdAt_desc (filter (where_matches w) (book_rows s))
      in if \<not> where_ok w \<or> skip < 0 then (Inl PrismaValidationError, s1)
         else if 0 \<le> tk
         then (Inr (map (with_relations s) (take (nat tk) (drop (nat skip) ordered))), s1)
         else (Inr (map (with_relations s)
                 (rev (take (nat (- tk)) (drop (nat skip) (rev ordered))))), s1))"

definition prisma_book_count :: "book_where \<Rightarrow> store \<Rightarrow> (prisma_error + nat) \<times> store" where
  "prisma_book_count w s =
     (let s1 = logop OpCount s
      in if \<not> where_ok w then (Inl PrismaValidationError, s1)
         else (Inr (length (filter (where_matches w) (book_rows s))), s1))"

section \<open>BookService\<close>

record shaped_author =
  id' :: string
  name :: string
  order' :: int

record shaped_category =
  id' :: string
  name :: string
  slug :: string
  isPrimary :: bool

record shaped_book = book +
  authors :: "shaped_author list option"
  categories :: "shaped_category list option"

text \<open>\<^verbatim>\<open>formatBookResponse\<close>: the scalar columns pass through; the join rows are flattened.\<close>

definition formatBookResponse :: "book_rel \<Rightarrow> shaped_book" where
  "formatBookResponse bk =
     \<lparr>book.id' = book.id' (row bk),
      isbn = book.isbn (row bk),
      isbn13 = book.isbn13 (row bk),
      title = book.title (row bk),
      subtitle = book.subtitle (row bk),
      description = book.description (row bk),
      publisher = book.publisher (row bk),
      publicationDate = book.publicationDate (row bk),
      edition = book.edition (row bk),
      language = book.language (row bk),
      pageCount = book.pageCount (row bk),
      format = book.format (row bk),
      price = book.price (row bk),
      discountPrice = book.discountPrice (row bk),
      stockQuantity = book.stockQuantity (row bk),
      coverImageUrl = book.coverImageUrl (row bk),
      previewUrl = book.previewUrl (row bk),
      averageRating = book.averageRating (row bk),
      ratingsCount = book.ratingsCount (row bk),
      additionalInfo = book.additionalInfo (row bk),
      isFeatured = book.isFeatured (row bk),
      isActive = book.isActive (row bk),
      createdAt = book.createdAt (row bk),
      updatedAt = book.updatedAt (row bk),
      authors = map_option (map (\<lambda>(ba, a).
          \<lparr>shaped_author.id' = author.id' a, name = author.name a, order' = authorOrder ba\<rparr>))
        (rel_authors bk),
      categories = map_option (map (\<lambda>(bc, c).
          \<lparr>shaped_category.id' = category.id' c, name = category.name c, slug = category.slug c,
           isPrimary = BookCategory.isPrimary bc\<rparr>))
        (rel_categories bk)\<rparr>"

text \<open>\<^verbatim>\<open>[isbn ? { isbn } : undefined, isbn13 ? { isbn13 } : undefined].filter(Boolean)\<close>\<close>

definition or_conds :: "string option \<Rightarrow> string option \<Rightarrow> isbn_cond list" where
  "or_conds i i13 =
     (case i of None \<Rightarrow> [] | Some x \<Rightarrow> if x \<noteq> [] then [IsbnIs x] else []) @
     (case i13 of None \<Rightarrow> [] | Some x \<Rightarrow> if x \<noteq> [] then [Isbn13Is x] else [])"

text \<open>
  \<^verbatim>\<open>createBook\<close>, in the order of the source: the duplicate check, the \<^verbatim>\<open>data\<close> object
  with its two nested \<^verbatim>\<open>create\<close> lists, the call of \<^verbatim>\<open>prisma.book.create\<close>, the shaping.
\<close>

definition duplicate_check :: "bookData \<Rightarrow> store \<Rightarrow> bool \<times> store" where
  "duplicate_check d s =
     (if truthy (bookData.isbn d) \<or> truthy (bookData.isbn13 d)
      then (case prisma_book_findFirst (or_conds (bookData.isbn d) (bookData.isbn13 d)) s of
              (existing, s') \<Rightarrow> (existing \<noteq> None, s'))
      else (False, s))"

definition create_data :: "bookData \<Rightarrow> book_input" where
  "create_data d =
     \<lparr>book_input.isbn = bookData.isbn d,
      isbn13 = bookData.isbn13 d,
      title = bookData.title d,
      subtitle = bookData.subtitle d,
      description = bookData.description d,
      publisher = bookData.publisher d,
      publicationDate =
        (if truthy (bookData.publicationDate d)
         then map_option Date (bookData.publicationDate d) else None),
      edition = bookData.edition d,
      language = Some (dflt ''en'' (bookData.language d)),
      pageCount = bookData.pageCount d,
      format = bookData.format d,
      price = bookData.price d,
      discountPrice = bookData.discountPrice d,
      stockQuantity = Some (dflt 0 (bookData.stockQuantity d)),
      coverImageUrl = bookData.coverImageUrl d,
      previewUrl = bookData.previewUrl d,
      additionalInfo = Some (dflt (JObj []) (bookData.additionalInfo d)),
      isFeatured = Some (dflt False (bookData.isFeatured d)),
      isActive = Some (dflt True (bookData.isActive d)),
      averageRating = None,
      ratingsCount = None\<rparr>"

definition authors_create :: "string list \<Rightarrow> (string \<times> int) list option" where
  "authors_create ids =
     (if length ids > 0
      then Some (map (\<lambda>(index, authorId). (authorId, int index + 1)) (enumerate 0 ids))
      else None)"

definition categories_create :: "string list \<Rightarrow> (string \<times> bool) list option" where
  "categories_create ids =
     (if length ids > 0
      then Some (map (\<lambda>(index, categoryId). (categoryId, index = 0)) (enumerate 0 ids))
      else None)"

definition createBook :: "'e env_scheme \<Rightarrow> bookData \<Rightarrow> store \<Rightarrow> (app_error + shaped_book) \<times> store" where
  "createBook e d s =
     (case duplicate_check d s of
        (True, s1) \<Rightarrow> (Inl (ConflictError ''A book with this ISBN already exists''), s1)
      | (False, s1) \<Rightarrow>
         (case prisma_book_create e (create_data d)
                 (authors_create (dflt [] (bookData.authorIds d)))
                 (categories_create (dflt [] (bookData.categoryIds d))) s1 of
            (Inl pe, s2) \<Rightarrow> (Inl (PrismaError pe), s2)
          | (Inr bk, s2) \<Rightarrow> (Inr (formatBookResponse bk), s2)))"

definition getBookById :: "string \<Rightarrow> store \<Rightarrow> (app_error + shaped_book) \<times> store" where
  "getBookById i s =
     (case prisma_book_findUnique i s of
        (None, s1) \<Rightarrow> (Inl (NotFound ''Book'' i), s1)
      | (Some b, s1) \<Rightarrow> (Inr (formatBookResponse (with_relations s1 b)), s1))"

text \<open>
  \<^verbatim>\<open>const { authorIds, categoryIds, publicationDate, ...data } = updateData\<close>: every other
  property of the payload, whatever its key, goes to the store as it is, and
  \<^verbatim>\<open>publicationDate\<close> is put back as a date when it is truthy.
\<close>

definition update_data :: "bookData \<Rightarrow> book_update_input" where
  "update_data u =
     \<lparr>book_input.isbn = bookData.isbn u,
      isbn13 = bookData.isbn13 u,
      title = bookData.title u,
      subtitle = bookData.subtitle u,
      description = bookData.description u,
      publisher = bookData.publisher u,
      publicationDate =
        (if truthy (bookData.publicationDate u)
         then map_option Date (bookData.publicationDate u) else None),
      edition = bookData.edition u,
      language = bookData.language u,
      pageCount = bookData.pageCount u,
      format = bookData.format u,
      price = bookData.price u,
      discountPrice = bookData.discountPrice u,
      stockQuantity = bookData.stockQuantity u,
      coverImageUrl = bookData.coverImageUrl u,
      previewUrl = bookData.previewUrl u,
      additionalInfo = bookData.additionalInfo u,
      isFeatured = bookData.isFeatured u,
      isActive = bookData.isActive u,
      averageRating = bookData.averageRating u,
      ratingsCount = bookData.ratingsCount u,
      book_update_input.id' = bookData.id' u,
      createdAt = bookData.createdAt u,
      updatedAt = bookData.updatedAt u,
      authors = bookData.authors u,
      categories = bookData.categories u,
      rest = bookData.rest u\<rparr>"

definition updateBook ::
  "'e env_scheme \<Rightarrow> string \<Rightarrow> bookData \<Rightarrow> store \<Rightarrow> (app_error + shaped_book) \<times> store" where
  "updateBook e i u s =
     (case prisma_book_findUnique i s of
        (None, s1) \<Rightarrow> (Inl (NotFound ''Book'' i), s1)
      | (Some existing, s1) \<Rightarrow>
         (case prisma_book_update e i (update_data u) s1 of
            (Inl pe, s2) \<Rightarrow> (Inl (PrismaError pe), s2)
          | (Inr bk, s2) \<Rightarrow> (Inr (formatBookResponse bk), s2)))"

definition deleteBook :: "string \<Rightarrow> store \<Rightarrow> (app_error + unit) \<times> store" where
  "deleteBook i s =
     (case prisma_book_findUnique i s of
        (None, s1) \<Rightarrow> (Inl (NotFound ''Book'' i), s1)
      | (Some existing, s1) \<Rightarrow>
         (case prisma_book_delete i s1 of
            (Inl pe, s2) \<Rightarrow> (Inl (PrismaError pe), s2)
          | (Inr u, s2) \<Rightarrow> (Inr (), s2)))"

text \<open>
  \<^verbatim>\<open>getBooks\<close>. \<^verbatim>\<open>Math.ceil(total / limit)\<close> is taken over exact quotients; dividing by
  zero gives \<^verbatim>\<open>Infinity\<close>, or \<^verbatim>\<open>NaN\<close> for \<^verbatim>\<open>0 / 0\<close>. Both queries of
  \<^verbatim>\<open>Promise.all\<close> are issued; the first rejection is the one thrown.
\<close>

datatype js_number = Number int | Infinity | NegInfinity | NaN

definition Math_ceil_div :: "nat \<Rightarrow> int \<Rightarrow> js_number" where
  "Math_ceil_div n d =
     (if d = 0 then (if n = 0 then NaN else Infinity)
      else Number \<lceil>rat_of_nat n / rat_of_int d\<rceil>)"

record list_options =
  page :: "int option"
  limit :: "int option"
  search :: "string option"
  format :: "string option"
  isActive :: "bool option"
  isFeatured :: "bool option"

record pagination =
  page :: int
  limit :: int
  total :: nat
  totalPages :: js_number
  hasNext :: bool
  hasPrev :: bool

record book_list =
  books :: "shaped_book list"
  pagination :: pagination

definition build_where :: "list_options \<Rightarrow> book_where" where
  "build_where options =
     \<lparr>w_title_contains =
        (if truthy (list_options.search options) then list_options.search options else None),
      w_format =
        (if truthy (list_options.format options) then list_options.format options else None),
      w_isActive = list_options.isActive options,
      w_isFeatured = list_options.isFeatured options\<rparr>"

definition getBooks :: "list_options \<Rightarrow> store \<Rightarrow> (app_error + book_list) \<times> store" where
  "getBooks options s =
     (let page' = dflt 1 (list_options.page options);
          limit' = dflt 20 (list_options.limit options);
          skip = (page' - 1) * limit';
          wh = build_where options
      in case prisma_book_findMany wh skip limit' s of
           (r1, s1) \<Rightarrow>
            (case prisma_book_count wh s1 of
               (r2, s2) \<Rightarrow>
                (case r1 of
                   Inl pe \<Rightarrow> (Inl (PrismaError pe), s2)
                 | Inr bks \<Rightarrow>
                    (case r2 of
                       Inl pe \<Rightarrow> (Inl (PrismaError pe), s2)
                     | Inr total' \<Rightarrow>
                        (Inr \<lparr>books = map formatBookResponse bks,
                              pagination =
                                \<lparr>pagination.page = page',
                                 limit = limit',
                                 total = total',
                                 totalPages = Math_ceil_div total' limit',
                                 hasNext = (page' * limit' < int total'),
                                 hasPrev = (page' > 1)\<rparr>\<rparr>, s2)))))"

section \<open>BookController\<close>

text \<open>
  A query parameter, as \<^verbatim>\<open>req.query\<close> holds it: a string, or for a repeated or bracketed
  key an array or an object. A string is its sequence of UTF-16 code units.
  \<^verbatim>\<open>parseInt\<close> first turns its argument into a string: an array is its elements joined by
  commas, an object is \<^verbatim>\<open>[object Object]\<close>, an absent parameter is \<^verbatim>\<open>undefined\<close>.
\<close>

type_synonym js_string = "nat list"

definition units :: "string \<Rightarrow> js_string" where
  "units x = map of_char x"

datatype qs_value =
    QString js_string
  | QArray "qs_value list"
  | QObject "(js_string \<times> qs_value) list"

fun join_comma :: "js_string list \<Rightarrow> js_string" where
  "join_comma [] = []"
| "join_comma [x] = x"
| "join_comma (x # y # ys) = x @ [44] @ join_comma (y # ys)"

fun to_text :: "qs_value \<Rightarrow> js_string" where
  "to_text (QString x) = x"
| "to_text (QArray xs) = join_comma (map to_text xs)"
| "to_text (QObject kvs) = units ''[object Object]''"

text \<open>
  \<^verbatim>\<open>parseInt(x, 10)\<close>: leading white space is skipped (the white space and line terminator
  code points of the language), one sign is read, then the longest run of decimal digits;
  with no digit the result is \<^verbatim>\<open>NaN\<close>. The digits denote an integer, and the result is
  the double nearest to it, a tie going to the even significand; from \<open>2 ^ 1024\<close> on that
  is \<^verbatim>\<open>Infinity\<close>. A double that is an integer is kept as that integer.
\<close>

definition is_space :: "nat \<Rightarrow> bool" where
  "is_space c =
     (c \<in> {9, 10, 11, 12, 13, 32, 160, 5760, 8232, 8233, 8239, 8287, 12288, 65279}
      \<or> (8192 \<le> c \<and> c \<le> 8202))"

definition is_decimal_digit :: "nat \<Rightarrow> bool" where
  "is_decimal_digit c = (48 \<le> c \<and> c \<le> 57)"

definition digits_value :: "js_string \<Rightarrow> nat" where
  "digits_value ds = foldl (\<lambda>acc c. 10 * acc + (c - 48)) 0 ds"

fun bit_length :: "nat \<Rightarrow> nat" where
  "bit_length n = (if n = 0 then 0 else Suc (bit_length (n div 2)))"

declare bit_length.simps [simp del]

definition nearest_double :: "nat \<Rightarrow> nat option" where
  "nearest_double n =
     (if n < 2 ^ 53 then Some n
      else
        (let sh = bit_length n - 53;
             q = n div 2 ^ sh;
             r = n mod 2 ^ sh;
             m = (if 2 ^ (sh - 1) < r \<or> (r = 2 ^ (sh - 1) \<and> odd q) then q + 1 else q)
         in if 2 ^ 1024 \<le> m * 2 ^ sh then None else Some (m * 2 ^ sh)))"

definition strip_sign :: "js_string \<Rightarrow> js_string" where
  "strip_sign t = (if t \<noteq> [] \<and> (hd t = 45 \<or> hd t = 43) then tl t else t)"

definition parseInt_string :: "js_string \<Rightarrow> js_number" where
  "parseInt_string x =
     (let t = dropWhile is_space x;
          neg = (t \<noteq> [] \<and> hd t = 45);
          ds = takeWhile is_decimal_digit (strip_sign t)
      in if ds = [] then NaN
         else (case nearest_double (digits_value ds) of
                 None \<Rightarrow> if neg then NegInfinity else Infinity
               | Some m \<Rightarrow> Number (if neg then - int m else int m)))"

definition parseInt :: "qs_value option \<Rightarrow> js_number" where
  "parseInt x = parseInt_string (case x of None \<Rightarrow> units ''undefined'' | Some v \<Rightarrow> to_text v)"

text \<open>\<^verbatim>\<open>parseInt(x, 10) || d\<close>: \<^verbatim>\<open>NaN\<close> and zero of either sign are falsy.\<close>

definition or_number :: "js_number \<Rightarrow> int \<Rightarrow> js_number" where
  "or_number v d =
     (case v of NaN \<Rightarrow> Number d | Number n \<Rightarrow> if n = 0 then Number d else Number n | w \<Rightarrow> w)"

text \<open>\<^verbatim>\<open>search\<close> and \<^verbatim>\<open>format\<close> are taken as the texts they are when they come once.\<close>

record list_query =
  page :: "qs_value option"
  limit :: "qs_value option"
  search :: "string option"
  format :: "string option"
  isActive :: "qs_value option"
  isFeatured :: "qs_value option"

definition flag_of :: "qs_value option \<Rightarrow> bool option" where
  "flag_of v =
     (if v = Some (QString (units ''true'')) then Some True
      else if v = Some (QString (units ''false'')) then Some False else None)"

definition page_arg :: "list_query \<Rightarrow> js_number" where
  "page_arg q = or_number (parseInt (list_query.page q)) 1"

definition limit_arg :: "list_query \<Rightarrow> js_number" where
  "limit_arg q = or_number (parseInt (list_query.limit q)) 20"

definition list_filters :: "list_query \<Rightarrow> list_options" where
  "list_filters q =
     \<lparr>list_options.page = None,
      limit = None,
      search = list_query.search q,
      format = list_query.format q,
      isActive = flag_of (list_query.isActive q),
      isFeatured = flag_of (list_query.isFeatured q)\<rparr>"

text \<open>The argument of \<^verbatim>\<open>getBooks\<close>, when \<^verbatim>\<open>page\<close> and \<^verbatim>\<open>limit\<close> are both finite.\<close>

definition list_args :: "list_query \<Rightarrow> list_options option" where
  "list_args q =
     (case (page_arg q, limit_arg q) of
        (Number p, Number l) \<Rightarrow>
          Some ((list_filters q)\<lparr>list_options.page := Some p, list_options.limit := Some l\<rparr>)
      | _ \<Rightarrow> None)"

text \<open>
  What \<^verbatim>\<open>ResponseHandler.success(res, data, message, status)\<close> is given; the status is absent
  where the controller leaves it to the handler.
\<close>

datatype response_data = BookData shaped_book | ListData book_list | NoData

record response =
  data :: response_data
  resp_message :: string
  status :: "nat option"

text \<open>
  With a \<^verbatim>\<open>page\<close> or a \<^verbatim>\<open>limit\<close> that is infinite, \<^verbatim>\<open>getBooks\<close> hands the client a
  \<^verbatim>\<open>skip\<close> or a \<^verbatim>\<open>take\<close> that is no integer. What comes of that is the client's matter: the
  environment says how the request ends, given the two numbers and the rest of the options.
\<close>

record runtime = env +
  list_nonfinite ::
    "js_number \<Rightarrow> js_number \<Rightarrow> list_options \<Rightarrow> store \<Rightarrow> (app_error + response) \<times> store"

definition BookController_create ::
  "'e env_scheme \<Rightarrow> bookData \<Rightarrow> store \<Rightarrow> (app_error + response) \<times> store" where
  "BookController_create e body s =
     (case createBook e body s of
        (Inl err, s1) \<Rightarrow> (Inl err, s1)
      | (Inr bk, s1) \<Rightarrow>
         (Inr \<lparr>data = BookData bk, resp_message = ''Book created successfully'', status = Some 201\<rparr>, s1))"

definition BookController_list ::
  "runtime \<Rightarrow> list_query \<Rightarrow> store \<Rightarrow> (app_error + response) \<times> store" where
  "BookController_list e q s =
     (case list_args q of
        None \<Rightarrow> list_nonfinite e (page_arg q) (limit_arg q) (list_filters q) s
      | Some options \<Rightarrow>
         (case getBooks options s of
            (Inl err, s1) \<Rightarrow> (Inl err, s1)
          | (Inr r, s1) \<Rightarrow>
             (Inr \<lparr>data = ListData r, resp_message = ''Books retrieved successfully'',
                   status = None\<rparr>, s1)))"

definition BookController_getById :: "string \<Rightarrow> store \<Rightarrow> (app_error + response) \<times> store" where
  "BookController_getById i s =
     (case getBookById i s of
        (Inl err, s1) \<Rightarrow> (Inl err, s1)
      | (Inr bk, s1) \<Rightarrow>
         (Inr \<lparr>data = BookData bk, resp_message = ''Book retrieved successfully'', status = None\<rparr>, s1))"

definition BookController_update ::
  "'e env_scheme \<Rightarrow> string \<Rightarrow> bookData \<Rightarrow> store \<Rightarrow> (app_error + response) \<times> store" where
  "BookController_update e i body s =
     (case updateBook e i body s of
        (Inl err, s1) \<Rightarrow> (Inl err, s1)
      | (Inr bk, s1) \<Rightarrow>
         (Inr \<lparr>data = BookData bk, resp_message = ''Book updated successfully'', status = None\<rparr>, s1))"

definition BookController_delete :: "string \<Rightarrow> store \<Rightarrow> (app_error + response) \<times> store" where
  "BookController_delete i s =
     (case deleteBook i s of
        (Inl err, s1) \<Rightarrow> (Inl err, s1)
      | (Inr u, s1) \<Rightarrow>
         (Inr \<lparr>data = NoData, resp_message = ''Book deleted successfully'', status = None\<rparr>, s1))"

section \<open>Authentication and authorisation middleware\<close>

text \<open>
  \<^verbatim>\<open>jwt.verify(token, secret, { algorithms })\<close> belongs to a library: it is a parameter that
  either returns the decoded claims or throws an error of one of three kinds.
\<close>

record jwt_claims =
  sub :: "string option"
  id' :: "string option"
  email :: "string option"
  role :: "string option"

datatype jwt_failure = TokenExpiredError | JsonWebTokenError | OtherVerifyError

type_synonym jwt_verify = "string \<Rightarrow> string \<Rightarrow> jwt_failure + jwt_claims"

record req_user =
  id' :: "string option"
  email :: "string option"
  role :: "string option"

datatype route =
    GetList list_query
  | PostCreate bookData
  | GetOne string
  | PutUpdate string bookData
  | DeleteOne string

record request =
  authorization :: "string option"
  route :: route
  user :: "req_user option"

fun split_on :: "char \<Rightarrow> string \<Rightarrow> string list" where
  "split_on c [] = [[]]"
| "split_on c (x # xs) =
     (if x = c then [] # split_on c xs
      else (case split_on c xs of [] \<Rightarrow> [[x]] | h # t \<Rightarrow> (x # h) # t))"

text \<open>The token of a header of the form \<^verbatim>\<open>Bearer <token>\<close>, if it has that form.\<close>

definition bearer_token :: "string option \<Rightarrow> (app_error + string)" where
  "bearer_token authHeader =
     (if \<not> truthy authHeader then Inl (UnauthorizedError ''No authorization token provided'')
      else (case split_on CHR '' '' (dflt [] authHeader) of
              [p0, token] \<Rightarrow>
                if p0 \<noteq> ''Bearer''
                then Inl (UnauthorizedError ''Invalid authorization header format. Use: Bearer <token>'')
                else Inr token
            | _ \<Rightarrow> Inl (UnauthorizedError ''Invalid authorization header format. Use: Bearer <token>'')))"

definition authenticate :: "jwt_verify \<Rightarrow> string \<Rightarrow> request \<Rightarrow> app_error + request" where
  "authenticate verify secret req =
     (case bearer_token (authorization req) of
        Inl err \<Rightarrow> Inl err
      | Inr token \<Rightarrow>
         (case verify token secret of
            Inr decoded \<Rightarrow>
              Inr (req\<lparr>user := Some
                \<lparr>req_user.id' =
                   (case jwt_claims.id' decoded of
                      Some i \<Rightarrow> Some i
                    | None \<Rightarrow> if truthy (sub decoded) then sub decoded else None),
                 email = jwt_claims.email decoded,
                 role = jwt_claims.role decoded\<rparr>\<rparr>)
          | Inl TokenExpiredError \<Rightarrow> Inl (UnauthorizedError ''Token has expired'')
          | Inl JsonWebTokenError \<Rightarrow> Inl (UnauthorizedError ''Invalid token'')
          | Inl OtherVerifyError \<Rightarrow> Inl (UnauthorizedError ''Authentication failed'')))"

text \<open>\<^verbatim>\<open>authenticateToken(options)\<close> throws while the router is built when no secret is configured.\<close>

definition authenticateToken ::
  "jwt_verify \<Rightarrow> string option \<Rightarrow> (request \<Rightarrow> app_error + request) option" where
  "authenticateToken verify secret =
     (if \<not> truthy secret then None else Some (authenticate verify (dflt [] secret)))"

fun join_with :: "string \<Rightarrow> string list \<Rightarrow> string" where
  "join_with sep [] = []"
| "join_with sep [x] = x"
| "join_with sep (x # y # ys) = x @ sep @ join_with sep (y # ys)"

definition requireRole :: "string list \<Rightarrow> request \<Rightarrow> app_error + request" where
  "requireRole roles req =
     (case user req of
        None \<Rightarrow> Inl (UnauthorizedError ''Authentication required'')
      | Some u \<Rightarrow>
         if \<not> truthy (req_user.role u) \<or> dflt [] (req_user.role u) \<notin> set roles
         then Inl (ForbiddenError (''Access denied. Required role: '' @ join_with '' or '' roles))
         else Inr req)"

definition requireAdmin :: "request \<Rightarrow> app_error + request" where
  "requireAdmin = requireRole [''admin'']"

section \<open>The router of the book routes\<close>

text \<open>
  \<^verbatim>\<open>router.use(authenticateToken()); router.use(requireAdmin);\<close> and then one handler per
  route, each the controller method wrapped in \<^verbatim>\<open>asyncHandler\<close>. A middleware that calls
  \<^verbatim>\<open>next(err)\<close> ends the chain: nothing mounted after it runs. \<open>stages\<close> lists what ran.
\<close>

datatype stage = Authenticate | RoleCheck | Controller

record router_result =
  stages :: "stage list"
  outcome :: "app_error + response"
  final_store :: store

definition handler :: "runtime \<Rightarrow> request \<Rightarrow> store \<Rightarrow> (app_error + response) \<times> store" where
  "handler e req s =
     (case route req of
        GetList q \<Rightarrow> BookController_list e q s
      | PostCreate body \<Rightarrow> BookController_create e body s
      | GetOne i \<Rightarrow> BookController_getById i s
      | PutUpdate i body \<Rightarrow> BookController_update e i body s
      | DeleteOne i \<Rightarrow> BookController_delete i s)"

definition book_router ::
  "jwt_verify \<Rightarrow> string option \<Rightarrow> runtime \<Rightarrow> request \<Rightarrow> store \<Rightarrow> router_result option" where
  "book_router verify secret e req s =
     (case authenticateToken verify secret of
        None \<Rightarrow> None
      | Some auth \<Rightarrow>
         Some (case auth req of
            Inl err \<Rightarrow> \<lparr>stages = [Authenticate], outcome = Inl err, final_store = s\<rparr>
          | Inr req1 \<Rightarrow>
             (case requireAdmin req1 of
                Inl err \<Rightarrow> \<lparr>stages = [Authenticate, RoleCheck], outcome = Inl err, final_store = s\<rparr>
              | Inr req2 \<Rightarrow>
                 (case handler e req2 s of
                    (r, s1) \<Rightarrow>
                      \<lparr>stages = [Authenticate, RoleCheck, Controller], outcome = r,
                       final_store = s1\<rparr>))))"

section \<open>Validation\<close>

text \<open>
  \<^verbatim>\<open>validationResult(req).array()\<close> is what the validator library collected: the errors of
  the chains that ran, chain after chain in the order of the rule set, each with \<^verbatim>\<open>path\<close>
  (or \<^verbatim>\<open>param\<close>), \<^verbatim>\<open>msg\<close> and \<^verbatim>\<open>value\<close>. A chain is taken as the function from the payload to
  the errors it reports. \<^verbatim>\<open>validate\<close> ends a rule set: \<open>None\<close> is the plain \<^verbatim>\<open>next()\<close>.
\<close>

record validator_error =
  path :: "string option"
  param :: "string option"
  msg :: string
  "value" :: "json option"

type_synonym 'p chain = "'p \<Rightarrow> validator_error list"

definition validationResult :: "'p chain list \<Rightarrow> 'p \<Rightarrow> validator_error list" where
  "validationResult rule_set payload = concat (map (\<lambda>c. c payload) rule_set)"

definition format_error :: "validator_error \<Rightarrow> field_error" where
  "format_error err =
     \<lparr>field = (if truthy (path err) then path err else param err),
      message = msg err,
      value = validator_error.value err\<rparr>"

definition validate :: "validator_error list \<Rightarrow> app_error option" where
  "validate errors =
     (if errors \<noteq> [] then Some (ValidationError ''Validation failed'' (map format_error errors))
      else None)"

text \<open>
  Two chains of \<^verbatim>\<open>createBookValidation\<close>, in the order in which it lists them:
  \<^verbatim>\<open>rules.isbn("isbn")\<close>, that is
  \<^verbatim>\<open>body("isbn").optional().matches(/^(?:\d{10}|\d{13}|[\d-]{13,17})$/).withMessage("Invalid ISBN format")\<close>,
  and
  \<^verbatim>\<open>body("isbn13").optional().matches(/^(?:\d{13}|[\d-]{17})$/).withMessage("Invalid ISBN-13 format")\<close>.
  An optional chain reports nothing for an absent value.
\<close>

definition is_digit :: "char \<Rightarrow> bool" where
  "is_digit c = ((48::nat) \<le> of_char c \<and> of_char c \<le> (57::nat))"

definition isbn13_pattern :: "string \<Rightarrow> bool" where
  "isbn13_pattern x =
     ((length x = 13 \<and> list_all is_digit x)
      \<or> (length x = 17 \<and> list_all (\<lambda>c. is_digit c \<or> c = CHR ''-'') x))"

definition isbn_pattern :: "string \<Rightarrow> bool" where
  "isbn_pattern x =
     ((length x = 10 \<and> list_all is_digit x)
      \<or> (length x = 13 \<and> list_all is_digit x)
      \<or> (13 \<le> length x \<and> length x \<le> 17 \<and> list_all (\<lambda>c. is_digit c \<or> c = CHR ''-'') x))"

definition isbn_chain :: "bookData chain" where
  "isbn_chain body =
     (case bookData.isbn body of
        None \<Rightarrow> []
      | Some x \<Rightarrow>
         if isbn_pattern x then []
         else [\<lparr>path = Some ''isbn'', param = None, msg = ''Invalid ISBN format'',
                value = Some (JStr x)\<rparr>])"

definition isbn13_chain :: "bookData chain" where
  "isbn13_chain body =
     (case bookData.isbn13 body of
        None \<Rightarrow> []
      | Some x \<Rightarrow>
         if isbn13_pattern x then []
         else [\<lparr>path = Some ''isbn13'', param = None, msg = ''Invalid ISBN-13 format'',
                value = Some (JStr x)\<rparr>])"

section \<open>Sample data\<close>

text \<open>A store with two authors and two categories and no book, a clock and some payloads.\<close>

definition no_fields :: bookData where
  "no_fields =
     \<lparr>bookData.isbn = None, isbn13 = None, title = None, subtitle = None, description = None,
      publisher = None, publicationDate = None, edition = None, language = None,
      pageCount = None, format = None, price = None, discountPrice = None,
      stockQuantity = None, coverImageUrl = None, previewUrl = None, additionalInfo = None,
      isFeatured = None, isActive = None, authorIds = None, categoryIds = None,
      averageRating = None, ratingsCount = None, id' = None, createdAt = None,
      updatedAt = None, authors = None, categories = None, rest = []\<rparr>"

definition required_fields :: bookData where
  "required_fields =
     no_fields\<lparr>bookData.title := Some ''Dune'',
               bookData.description := Some ''A desert planet'',
               bookData.format := Some ''PAPERBACK'',
               bookData.price := Some (999 / 100),
               bookData.coverImageUrl := Some ''https://img.example.com/dune.png''\<rparr>"

definition sample_payload :: bookData where
  "sample_payload =
     required_fields\<lparr>bookData.isbn13 := Some ''9780441172719'',
                     bookData.publicationDate := Some ''1965-08-01'',
                     bookData.authorIds := Some [''A2'', ''A1''],
                     bookData.categoryIds := Some [''C3'', ''C1'']\<rparr>"

definition sample_store :: store where
  "sample_store =
     \<lparr>book_rows = [],
      author_rows = [\<lparr>author.id' = ''A1'', name = ''Frank Herbert''\<rparr>,
                     \<lparr>author.id' = ''A2'', name = ''Brian Herbert''\<rparr>],
      category_rows = [\<lparr>category.id' = ''C1'', name = ''Fiction'', slug = ''fiction''\<rparr>,
                       \<lparr>category.id' = ''C3'', name = ''Science Fiction'', slug = ''sci-fi''\<rparr>],
      bookAuthor_rows = [],
      bookCategory_rows = [],
      oplog = []\<rparr>"

text \<open>
  An environment in which a date is ten characters of digits and hyphens, an update stamps
  the row with the payload's \<^verbatim>\<open>updatedAt\<close> or else the clock, and nested writes and
  infinite pages are refused.
\<close>

definition env_at :: "string \<Rightarrow> timestamp \<Rightarrow> runtime" where
  "env_at i t =
     \<lparr>fresh_id = i, now = t,
      valid_date = (\<lambda>x. length x = 10 \<and> list_all (\<lambda>c. is_digit c \<or> c = CHR ''-'') x),
      updatedAt_after = (\<lambda>d b. dflt t (book_update_input.updatedAt d)),
      nested_write = (\<lambda>k w j s. Inl PrismaValidationError),
      list_nonfinite = (\<lambda>p l options s. (Inl (PrismaError PrismaValidationError), s))\<rparr>"

definition env1 :: runtime where
  "env1 = env_at ''B1'' 1000"

definition env2 :: runtime where
  "env2 = env_at ''B2'' 2000"

definition book_at :: "string \<Rightarrow> timestamp \<Rightarrow> book" where
  "book_at i t =
     \<lparr>book.id' = i, isbn = None, isbn13 = None, title = ''Dune'', subtitle = None,
      description = ''A desert planet'', publisher = None,
      publicationDate = Some (Date ''1965-08-01''), edition = None, language = ''en'',
      pageCount = None, format = PAPERBACK, price = 999 / 100, discountPrice = None,
      stockQuantity = 0, coverImageUrl = ''https://img.example.com/dune.png'',
      previewUrl = None, averageRating = 0, ratingsCount = 0, additionalInfo = JObj [],
      isFeatured = False, isActive = True, createdAt = t, updatedAt = t\<rparr>"

definition three_books :: store where
  "three_books = sample_store\<lparr>book_rows := [book_at ''B1'' 10, book_at ''B2'' 30, book_at ''B3'' 20]\<rparr>"

definition second_page_of_two :: list_options where
  "second_page_of_two =
     \<lparr>list_options.page = Some 2, limit = Some 2, search = None, format = None,
      isActive = None, isFeatured = None\<rparr>"

definition blank_isbn_payload :: bookData where
  "blank_isbn_payload = required_fields\<lparr>bookData.isbn := Some []\<rparr>"

definition one_book :: store where
  "one_book =
     sample_store\<lparr>book_rows := [book_at ''B1'' 10],
       bookAuthor_rows := [\<lparr>BookAuthor.bookId = ''B1'', authorId = ''A1'', authorOrder = 1\<rparr>],
       bookCategory_rows := [\<lparr>BookCategory.bookId = ''B1'', categoryId = ''C1'', isPrimary = True\<rparr>]\<rparr>"

definition stock_update :: bookData where
  "stock_update =
     no_fields\<lparr>bookData.stockQuantity := Some 5, bookData.authorIds := Some [''A2'']\<rparr>"

definition blank_date_update :: bookData where
  "blank_date_update = no_fields\<lparr>bookData.publicationDate := Some []\<rparr>"

definition rating_update :: bookData where
  "rating_update = no_fields\<lparr>bookData.averageRating := Some 5, bookData.ratingsCount := Some 1000\<rparr>"

text \<open>A verifier that knows three tokens, and requests that carry them.\<close>

definition sample_verify :: jwt_verify where
  "sample_verify token secret =
     (if secret \<noteq> ''s3cret'' then Inl JsonWebTokenError
      else if token = ''admin-token''
      then Inr \<lparr>sub = Some ''u1'', jwt_claims.id' = None,
                email = Some ''admin@bookzilla.com'', role = Some ''admin''\<rparr>
      else if token = ''reader-token''
      then Inr \<lparr>sub = Some ''u2'', jwt_claims.id' = None,
                email = Some ''reader@bookzilla.com'', role = Some ''reader''\<rparr>
      else if token = ''old-token'' then Inl TokenExpiredError
      else Inl JsonWebTokenError)"

definition request_of :: "string option \<Rightarrow> route \<Rightarrow> request" where
  "request_of h r = \<lparr>authorization = h, route = r, user = None\<rparr>"

definition short_isbn13_payload :: bookData where
  "short_isbn13_payload = required_fields\<lparr>bookData.isbn13 := Some ''123''\<rparr>"

definition two_bad_isbns_payload :: bookData where
  "two_bad_isbns_payload =
     required_fields\<lparr>bookData.isbn := Some ''12'', bookData.isbn13 := Some ''123''\<rparr>"

text \<open>A query whose parameters, where present, came once each, as strings.\<close>

definition query_of ::
  "string option \<Rightarrow> string option \<Rightarrow> string option \<Rightarrow> string option \<Rightarrow> list_query" where
  "query_of p l a f =
     \<lparr>list_query.page = map_option (\<lambda>x. QString (units x)) p,
      limit = map_option (\<lambda>x. QString (units x)) l,
      search = None, format = None,
      isActive = map_option (\<lambda>x. QString (units x)) a,
      isFeatured = map_option (\<lambda>x. QString (units x)) f\<rparr>"

section \<open>Properties\<close>

lemmas sample_defs = sample_payload_def required_fields_def no_fields_def sample_store_def
  env1_def env2_def env_at_def blank_isbn_payload_def book_at_def one_book_def stock_update_def
  blank_date_update_def rating_update_def sample_verify_def request_of_def
  short_isbn13_payload_def two_bad_isbns_payload_def query_of_def

text \<open>Rounding to an integer, on the values that occur below.\<close>

lemma floor_rat_numeral_div:
  "\<lfloor>(numeral a :: rat) / numeral b\<rfloor> = numeral a div numeral b"
  using floor_divide_of_int_eq[of "numeral a" "numeral b", where ?'a = rat] by simp

lemmas column_eval = column_ok_def date_ok_def fits_decimal_def fits_integer_def to_scale2_def
  round_half_away_def floor_rat_numeral_div is_digit_def

lemmas create_eval = createBook_def duplicate_check_def create_data_def authors_create_def
  categories_create_def prisma_book_create_def prisma_book_findFirst_def new_row_def
  with_relations_def formatBookResponse_def or_conds_def truthy_def dflt_def logop_def
  unique_ok_def primary_first_def List.map_filter_def enumerate_eq_zip upt_conv_Cons Let_def
  column_eval

subsection \<open>The store operations keep what they do not write\<close>

lemma tables_logop: "tables (logop op s) = tables s"
  by (simp add: tables_def logop_def)

lemma find_id_None:
  "\<not> list_ex (\<lambda>b. book.id' b = i) rows \<Longrightarrow> find (\<lambda>b. book.id' b = i) rows = None"
  by (simp add: find_None_iff list_ex_iff)

lemma prisma_book_create_rows:
  assumes "prisma_book_create e d ac cc s = (Inr bk, s')"
  shows "book_rows s' = book_rows s @ [row bk]
     \<and> bookAuthor_rows s' = bookAuthor_rows s @
         map (\<lambda>(a, n). \<lparr>BookAuthor.bookId = fresh_id e, authorId = a, authorOrder = n\<rparr>) (dflt [] ac)
     \<and> bookCategory_rows s' = bookCategory_rows s @
         map (\<lambda>(c, p). \<lparr>BookCategory.bookId = fresh_id e, categoryId = c, isPrimary = p\<rparr>) (dflt [] cc)
     \<and> author_rows s' = author_rows s \<and> category_rows s' = category_rows s"
proof (cases "new_row e d")
  case (Inl err)
  with assms show ?thesis by (simp add: prisma_book_create_def Let_def)
next
  case (Inr b)
  with assms show ?thesis
    by (clarsimp simp: prisma_book_create_def Let_def logop_def with_relations_def split: if_splits)
qed

lemma prisma_book_create_fail:
  assumes "prisma_book_create e d ac cc s = (Inl err, s')"
  shows "tables s' = tables s"
proof (cases "new_row e d")
  case (Inl err)
  with assms show ?thesis by (clarsimp simp: prisma_book_create_def Let_def logop_def tables_def)
next
  case (Inr b)
  with assms show ?thesis
    by (clarsimp simp: prisma_book_create_def Let_def logop_def tables_def split: if_splits)
qed

lemma duplicate_check_rows:
  "duplicate_check d s = (c, s') \<Longrightarrow>
     book_rows s' = book_rows s \<and> author_rows s' = author_rows s \<and> category_rows s' = category_rows s
     \<and> bookAuthor_rows s' = bookAuthor_rows s \<and> bookCategory_rows s' = bookCategory_rows s"
  by (clarsimp simp: duplicate_check_def prisma_book_findFirst_def logop_def split: if_splits)

subsection \<open>Absent books\<close>

lemma getBookById_absent:
  "\<not> list_ex (\<lambda>b. book.id' b = i) (book_rows s) \<Longrightarrow>
     getBookById i s = (Inl (NotFound ''Book'' i), logop (OpFindUnique i) s)"
  by (simp add: getBookById_def prisma_book_findUnique_def find_id_None)

lemma updateBook_absent:
  "\<not> list_ex (\<lambda>b. book.id' b = i) (book_rows s) \<Longrightarrow>
     updateBook e i u s = (Inl (NotFound ''Book'' i), logop (OpFindUnique i) s)"
  by (simp add: updateBook_def prisma_book_findUnique_def find_id_None)

lemma deleteBook_absent:
  "\<not> list_ex (\<lambda>b. book.id' b = i) (book_rows s) \<Longrightarrow>
     deleteBook i s = (Inl (NotFound ''Book'' i), logop (OpFindUnique i) s)"
  by (simp add: deleteBook_def prisma_book_findUnique_def find_id_None)

lemma deleteBook_removes:
  "\<not> list_ex (\<lambda>b. book.id' b = i) (book_rows (snd (deleteBook i s)))"
proof (cases "list_ex (\<lambda>b. book.id' b = i) (book_rows s)")
  case False
  then show ?thesis by (simp add: deleteBook_absent logop_def)
next
  case True
  then obtain b where "find (\<lambda>b. book.id' b = i) (book_rows s) = Some b"
    by (cases "find (\<lambda>b. book.id' b = i) (book_rows s)") (auto simp: find_None_iff list_ex_iff)
  with True show ?thesis
    by (simp add: deleteBook_def prisma_book_findUnique_def prisma_book_delete_def Let_def
        logop_def list_ex_iff)
qed

text \<open>
  C7. When no Book has the identifier, getById, update and delete each fail with the
  NotFoundError of the resource ``Book'' and leave every table as it was. After a delete
  of an identifier, whatever its result, a second delete and a getById of the same
  identifier fail with that NotFoundError.
\<close>

theorem absent_book_not_found:
  "(\<not> list_ex (\<lambda>b. book.id' b = i) (book_rows s) \<longrightarrow>
      fst (getBookById i s) = Inl (NotFound ''Book'' i) \<and>
      tables (snd (getBookById i s)) = tables s \<and>
      fst (updateBook e i u s) = Inl (NotFound ''Book'' i) \<and>
      tables (snd (updateBook e i u s)) = tables s \<and>
      fst (deleteBook i s) = Inl (NotFound ''Book'' i) \<and>
      tables (snd (deleteBook i s)) = tables s)
   \<and> fst (deleteBook i (snd (deleteBook i s))) = Inl (NotFound ''Book'' i)
   \<and> fst (getBookById i (snd (deleteBook i s))) = Inl (NotFound ''Book'' i)"
  by (simp add: getBookById_absent updateBook_absent deleteBook_absent tables_logop
      deleteBook_removes)

theorem absent_book_not_found_witness:
  "\<not> list_ex (\<lambda>b. book.id' b = ''B1'') (book_rows sample_store) \<and>
   fst (getBookById ''B1'' sample_store) = Inl (NotFoundError ''Book with identifier 'B1' not found'') \<and>
   fst (updateBook env2 ''B1'' required_fields sample_store) =
     Inl (NotFoundError ''Book with identifier 'B1' not found'') \<and>
   fst (deleteBook ''B1'' sample_store) = Inl (NotFoundError ''Book with identifier 'B1' not found'') \<and>
   tables (snd (deleteBook ''B1'' sample_store)) = tables sample_store"
  using absent_book_not_found[of "''B1''" sample_store env2 required_fields]
  by (simp add: sample_defs NotFound_def)

subsection \<open>Join rows of a created book\<close>

lemma createBook_Inr:
  assumes "createBook e d s = (Inr sb, s')"
  obtains s1 bk where
    "duplicate_check d s = (False, s1)"
    "prisma_book_create e (create_data d) (authors_create (dflt [] (bookData.authorIds d)))
         (categories_create (dflt [] (bookData.categoryIds d))) s1 = (Inr bk, s')"
    "sb = formatBookResponse bk"
  using assms unfolding createBook_def
  by (simp split: prod.splits bool.splits sum.splits)

lemma dflt_authors_create:
  "dflt [] (authors_create as) = map (\<lambda>(i, a). (a, int i + 1)) (enumerate 0 as)"
  by (simp add: authors_create_def dflt_def)

lemma dflt_categories_create:
  "dflt [] (categories_create cs) = map (\<lambda>(i, c). (c, i = 0)) (enumerate 0 cs)"
  by (simp add: categories_create_def dflt_def)

lemma createBook_join_rows:
  assumes "createBook e d s = (Inr sb, s')"
  shows "bookAuthor_rows s' = bookAuthor_rows s @
            map (\<lambda>(i, a). \<lparr>BookAuthor.bookId = fresh_id e, authorId = a, authorOrder = int i + 1\<rparr>)
              (enumerate 0 (dflt [] (bookData.authorIds d)))
   \<and> bookCategory_rows s' = bookCategory_rows s @
            map (\<lambda>(i, c). \<lparr>BookCategory.bookId = fresh_id e, categoryId = c, isPrimary = (i = 0)\<rparr>)
              (enumerate 0 (dflt [] (bookData.categoryIds d)))"
proof -
  from assms obtain s1 bk where
    dc: "duplicate_check d s = (False, s1)" and
    pc: "prisma_book_create e (create_data d) (authors_create (dflt [] (bookData.authorIds d)))
         (categories_create (dflt [] (bookData.categoryIds d))) s1 = (Inr bk, s')"
    by (rule createBook_Inr)
  from duplicate_check_rows[OF dc] prisma_book_create_rows[OF pc]
  show ?thesis
    by (simp add: dflt_authors_create dflt_categories_create case_prod_unfold o_def)
qed

lemma sample_create_succeeds:
  "\<exists>sb. fst (createBook env1 sample_payload sample_store) = Inr sb"
  by (simp add: create_eval sample_defs)

text \<open>
  C2. When create succeeds, the BookAuthor rows it adds are one per author identifier, in
  the order of the input, the row at position k (counted from 0) carrying that identifier
  and authorOrder k + 1; the BookCategory rows it adds are one per category identifier,
  with isPrimary true at position 0 and false elsewhere. An empty or absent list adds no
  row of its kind.
\<close>

theorem createBook_join_rows_by_position:
  assumes "createBook e d s = (Inr sb, s')"
  shows "\<exists>bas bcs.
     bookAuthor_rows s' = bookAuthor_rows s @ bas \<and>
     length bas = length (dflt [] (bookData.authorIds d)) \<and>
     (\<forall>k < length bas.
        BookAuthor.bookId (bas ! k) = fresh_id e \<and>
        authorId (bas ! k) = dflt [] (bookData.authorIds d) ! k \<and>
        authorOrder (bas ! k) = int k + 1) \<and>
     bookCategory_rows s' = bookCategory_rows s @ bcs \<and>
     length bcs = length (dflt [] (bookData.categoryIds d)) \<and>
     (\<forall>k < length bcs.
        BookCategory.bookId (bcs ! k) = fresh_id e \<and>
        categoryId (bcs ! k) = dflt [] (bookData.categoryIds d) ! k \<and>
        BookCategory.isPrimary (bcs ! k) = (k = 0))"
  using createBook_join_rows[OF assms]
  by (simp add: nth_enumerate_eq)

theorem createBook_join_rows_witness:
  "(case createBook env1 sample_payload sample_store of
      (Inr sb, s') \<Rightarrow>
        bookAuthor_rows s' =
          [\<lparr>BookAuthor.bookId = ''B1'', authorId = ''A2'', authorOrder = 1\<rparr>,
           \<lparr>BookAuthor.bookId = ''B1'', authorId = ''A1'', authorOrder = 2\<rparr>] \<and>
        bookCategory_rows s' =
          [\<lparr>BookCategory.bookId = ''B1'', categoryId = ''C3'', isPrimary = True\<rparr>,
           \<lparr>BookCategory.bookId = ''B1'', categoryId = ''C1'', isPrimary = False\<rparr>] \<and>
        authors sb =
          Some [\<lparr>shaped_author.id' = ''A2'', name = ''Brian Herbert'', order' = 1\<rparr>,
                \<lparr>shaped_author.id' = ''A1'', name = ''Frank Herbert'', order' = 2\<rparr>] \<and>
        categories sb =
          Some [\<lparr>shaped_category.id' = ''C3'', name = ''Science Fiction'', slug = ''sci-fi'',
                 isPrimary = True\<rparr>,
                \<lparr>shaped_category.id' = ''C1'', name = ''Fiction'', slug = ''fiction'',
                 isPrimary = False\<rparr>]
    | (Inl err, s') \<Rightarrow> False)"
proof -
  let ?r = "createBook env1 sample_payload sample_store"
  obtain sb where sb: "fst ?r = Inr sb"
    using sample_create_succeeds by blast
  then have eq: "?r = (Inr sb, snd ?r)"
    by (simp add: prod_eq_iff)
  note inst = createBook_join_rows_by_position[OF eq]
  have "bookAuthor_rows (snd ?r) =
          [\<lparr>BookAuthor.bookId = ''B1'', authorId = ''A2'', authorOrder = 1\<rparr>,
           \<lparr>BookAuthor.bookId = ''B1'', authorId = ''A1'', authorOrder = 2\<rparr>] \<and>
        bookCategory_rows (snd ?r) =
          [\<lparr>BookCategory.bookId = ''B1'', categoryId = ''C3'', isPrimary = True\<rparr>,
           \<lparr>BookCategory.bookId = ''B1'', categoryId = ''C1'', isPrimary = False\<rparr>] \<and>
        authors (projr (fst ?r)) =
          Some [\<lparr>shaped_author.id' = ''A2'', name = ''Brian Herbert'', order' = 1\<rparr>,
                \<lparr>shaped_author.id' = ''A1'', name = ''Frank Herbert'', order' = 2\<rparr>] \<and>
        categories (projr (fst ?r)) =
          Some [\<lparr>shaped_category.id' = ''C3'', name = ''Science Fiction'', slug = ''sci-fi'',
                 isPrimary = True\<rparr>,
                \<lparr>shaped_category.id' = ''C1'', name = ''Fiction'', slug = ''fiction'',
                 isPrimary = False\<rparr>]"
    using inst by (simp add: create_eval sample_defs)
  then show ?thesis by (subst eq) (simp add: sb)
qed

subsection \<open>The duplicate check of create\<close>

lemma or_conds_matches:
  "list_ex (cond_matches b) (or_conds i i13) =
     ((truthy i \<and> book.isbn b = i) \<or> (truthy i13 \<and> book.isbn13 b = i13))"
  by (cases i; cases i13) (auto simp: or_conds_def truthy_def)

lemma find_matches_ex:
  "(\<exists>y. find P xs = Some y) = list_ex P xs"
  by (induction xs) auto

lemma duplicate_check_lookup:
  assumes "truthy (bookData.isbn d) \<or> truthy (bookData.isbn13 d)"
  shows "duplicate_check d s =
     (list_ex (\<lambda>b. (truthy (bookData.isbn d) \<and> book.isbn b = bookData.isbn d) \<or>
                    (truthy (bookData.isbn13 d) \<and> book.isbn13 b = bookData.isbn13 d)) (book_rows s),
      logop (OpFindFirst (or_conds (bookData.isbn d) (bookData.isbn13 d))) s)"
  using assms
  by (simp add: duplicate_check_def prisma_book_findFirst_def find_matches_ex or_conds_matches)

lemma duplicate_check_skip:
  assumes "\<not> truthy (bookData.isbn d)" "\<not> truthy (bookData.isbn13 d)"
  shows "duplicate_check d s = (False, s)"
  using assms by (simp add: duplicate_check_def)

lemma prisma_book_create_log:
  "oplog (snd (prisma_book_create e d ac cc s)) = oplog s @ [OpCreate]"
  by (cases "new_row e d") (simp_all add: prisma_book_create_def Let_def logop_def)

lemma createBook_no_conflict:
  assumes "duplicate_check d s = (False, s1)"
  shows "oplog (snd (createBook e d s)) = oplog s1 @ [OpCreate]"
proof -
  let ?r = "prisma_book_create e (create_data d)
                 (authors_create (dflt [] (bookData.authorIds d)))
                 (categories_create (dflt [] (bookData.categoryIds d))) s1"
  have "snd (createBook e d s) = snd ?r"
    using assms by (cases ?r; cases "fst ?r") (simp_all add: createBook_def)
  then show ?thesis by (simp add: prisma_book_create_log)
qed

text \<open>
  C1, as the claim states it, fails for an \<^verbatim>\<open>isbn\<close> that is supplied but empty: the guard
  \<^verbatim>\<open>if (isbn || isbn13)\<close> reads it as absent. A first create with \<^verbatim>\<open>isbn: ""\<close> stores the
  empty string; a second one finds no duplicate, because it never looks, and is stopped by
  the unique index of the store, which is not a ConflictError.
\<close>

theorem createBook_blank_isbn_counterexample:
  "bookData.isbn blank_isbn_payload = Some [] \<and>
   map book.isbn (book_rows (snd (createBook env1 blank_isbn_payload sample_store))) = [Some []] \<and>
   fst (createBook env2 blank_isbn_payload (snd (createBook env1 blank_isbn_payload sample_store))) =
     Inl (PrismaError UniqueConstraintViolation) \<and>
   oplog (snd (createBook env2 blank_isbn_payload (snd (createBook env1 blank_isbn_payload sample_store)))) =
     [OpCreate, OpCreate]"
  by (simp add: create_eval sample_defs)

text \<open>
  C1, amended. When \<^verbatim>\<open>isbn\<close> or \<^verbatim>\<open>isbn13\<close> is supplied and not empty, the first thing
  create does is one lookup of a Book that has the non-empty \<^verbatim>\<open>isbn\<close> or the non-empty
  \<^verbatim>\<open>isbn13\<close> (a value that is absent or empty is left out of the OR); if such a Book exists,
  create fails with the ConflictError ``A book with this ISBN already exists'', no table
  changes and no insert is issued. When neither is supplied non-empty, the only store call
  is the insert: no lookup is made.
\<close>

theorem createBook_duplicate_isbn:
  "(truthy (bookData.isbn d) \<or> truthy (bookData.isbn13 d) \<longrightarrow>
      (\<exists>rest. oplog (snd (createBook e d s)) =
          oplog s @ OpFindFirst (or_conds (bookData.isbn d) (bookData.isbn13 d)) # rest) \<and>
      (list_ex (\<lambda>b. (truthy (bookData.isbn d) \<and> book.isbn b = bookData.isbn d) \<or>
                     (truthy (bookData.isbn13 d) \<and> book.isbn13 b = bookData.isbn13 d)) (book_rows s) \<longrightarrow>
         fst (createBook e d s) = Inl (ConflictError ''A book with this ISBN already exists'') \<and>
         tables (snd (createBook e d s)) = tables s \<and>
         OpCreate \<notin> set (drop (length (oplog s)) (oplog (snd (createBook e d s))))))
   \<and> (\<not> truthy (bookData.isbn d) \<and> \<not> truthy (bookData.isbn13 d) \<longrightarrow>
        oplog (snd (createBook e d s)) = oplog s @ [OpCreate])"
proof (intro conjI impI)
  assume t: "truthy (bookData.isbn d) \<or> truthy (bookData.isbn13 d)"
  let ?m = "list_ex (\<lambda>b. (truthy (bookData.isbn d) \<and> book.isbn b = bookData.isbn d) \<or>
                     (truthy (bookData.isbn13 d) \<and> book.isbn13 b = bookData.isbn13 d)) (book_rows s)"
  let ?s1 = "logop (OpFindFirst (or_conds (bookData.isbn d) (bookData.isbn13 d))) s"
  note dc = duplicate_check_lookup[OF t, of s]
  show "\<exists>rest. oplog (snd (createBook e d s)) =
          oplog s @ OpFindFirst (or_conds (bookData.isbn d) (bookData.isbn13 d)) # rest"
  proof (cases ?m)
    case True
    with dc show ?thesis by (simp add: createBook_def logop_def)
  next
    case False
    with dc have "duplicate_check d s = (False, ?s1)" by simp
    from createBook_no_conflict[OF this, of e] show ?thesis by (simp add: logop_def)
  qed
  {
    assume m: ?m
    with dc have cb: "createBook e d s =
        (Inl (ConflictError ''A book with this ISBN already exists''), ?s1)"
      by (simp add: createBook_def)
    show "fst (createBook e d s) = Inl (ConflictError ''A book with this ISBN already exists'')"
      by (simp add: cb)
    show "tables (snd (createBook e d s)) = tables s"
      by (simp add: cb tables_def logop_def)
    show "OpCreate \<notin> set (drop (length (oplog s)) (oplog (snd (createBook e d s))))"
      by (simp add: cb logop_def)
  }
next
  assume "\<not> truthy (bookData.isbn d) \<and> \<not> truthy (bookData.isbn13 d)"
  then have "duplicate_check d s = (False, s)" by (simp add: duplicate_check_skip)
  from createBook_no_conflict[OF this, of e]
  show "oplog (snd (createBook e d s)) = oplog s @ [OpCreate]" .
qed

theorem createBook_duplicate_isbn_witness:
  "fst (createBook env2 sample_payload (snd (createBook env1 sample_payload sample_store))) =
     Inl (ConflictError ''A book with this ISBN already exists'') \<and>
   tables (snd (createBook env2 sample_payload (snd (createBook env1 sample_payload sample_store)))) =
     tables (snd (createBook env1 sample_payload sample_store)) \<and>
   oplog (snd (createBook env1 required_fields sample_store)) = [OpCreate]"
proof -
  let ?s1 = "snd (createBook env1 sample_payload sample_store)"
  have t: "truthy (bookData.isbn sample_payload) \<or> truthy (bookData.isbn13 sample_payload)"
    by (simp add: sample_defs truthy_def)
  have m: "list_ex (\<lambda>b. (truthy (bookData.isbn sample_payload) \<and> book.isbn b = bookData.isbn sample_payload) \<or>
                     (truthy (bookData.isbn13 sample_payload) \<and> book.isbn13 b = bookData.isbn13 sample_payload))
             (book_rows ?s1)"
    by (simp add: create_eval sample_defs)
  have n: "\<not> truthy (bookData.isbn required_fields) \<and> \<not> truthy (bookData.isbn13 required_fields)"
    by (simp add: sample_defs truthy_def)
  from createBook_duplicate_isbn[of sample_payload env2 ?s1] t m
  have a: "fst (createBook env2 sample_payload ?s1) =
        Inl (ConflictError ''A book with this ISBN already exists'') \<and>
      tables (snd (createBook env2 sample_payload ?s1)) = tables ?s1"
    by blast
  from createBook_duplicate_isbn[of required_fields env1 sample_store] n
  have "oplog (snd (createBook env1 required_fields sample_store)) = oplog sample_store @ [OpCreate]"
    by blast
  then have b: "oplog (snd (createBook env1 required_fields sample_store)) = [OpCreate]"
    by (simp add: sample_defs)
  from a b show ?thesis by simp
qed

subsection \<open>A page of the list\<close>

lemmas list_eval = build_where_def where_ok_def where_matches_def createdAt_desc_def
  with_relations_def formatBookResponse_def truthy_def dflt_def three_books_def
  second_page_of_two_def book_at_def sample_store_def List.map_filter_def primary_first_def

lemma createdAt_desc_sorted:
  "sorted_wrt (\<lambda>a b. book.createdAt a \<ge> book.createdAt b) (createdAt_desc xs)"
proof -
  have "sorted (map book.createdAt (sort_key book.createdAt xs))" by (rule sorted_sort_key)
  then have "sorted_wrt (\<lambda>a b. book.createdAt a \<le> book.createdAt b) (sort_key book.createdAt xs)"
    by (simp add: sorted_wrt_map)
  then show ?thesis
    unfolding createdAt_desc_def by (simp add: sorted_wrt_rev)
qed

lemma createdAt_format: "book.createdAt (formatBookResponse (with_relations s b)) = book.createdAt b"
  by (simp add: formatBookResponse_def with_relations_def)

lemma Math_ceil_div_pos:
  assumes "0 < l"
  shows "\<exists>tp. Math_ceil_div n l = Number tp \<and> tp = \<lceil>rat_of_nat n / rat_of_int l\<rceil>
           \<and> int n \<le> tp * l \<and> (tp - 1) * l < int n"
proof -
  let ?q = "rat_of_nat n / rat_of_int l"
  let ?tp = "\<lceil>?q\<rceil>"
  have lpos: "0 < rat_of_int l" using assms by simp
  have "rat_of_nat n \<le> of_int ?tp * rat_of_int l"
    using le_of_int_ceiling[of ?q] pos_divide_le_eq[OF lpos, of "rat_of_nat n" "of_int ?tp"]
    by blast
  then have "rat_of_int (int n) \<le> rat_of_int (?tp * l)" by simp
  then have a: "int n \<le> ?tp * l" by (simp only: of_int_le_iff)
  have "(of_int ?tp - 1) * rat_of_int l < rat_of_nat n"
    using ceiling_correct[of ?q, THEN conjunct1]
      pos_less_divide_eq[OF lpos, of "of_int ?tp - 1" "rat_of_nat n"]
    by blast
  then have "rat_of_int ((?tp - 1) * l) < rat_of_int (int n)" by simp
  then have b: "(?tp - 1) * l < int n" by (simp only: of_int_less_iff)
  from a b assms show ?thesis by (simp add: Math_ceil_div_def)
qed

text \<open>The scenario of 45 rows in pages of 20: three pages, a next page after the first, none after the third.\<close>

lemma pagination_45_by_20:
  "Math_ceil_div 45 20 = Number 3 \<and> ((1::int) * 20 < int 45) \<and> \<not> ((3::int) * 20 < int 45)"
proof -
  from Math_ceil_div_pos[of 20 45] obtain tp where
    "Math_ceil_div 45 20 = Number tp" "int 45 \<le> tp * 20" "(tp - 1) * 20 < int 45"
    by auto
  moreover from this have "tp = 3" by arith
  ultimately show ?thesis by simp
qed

text \<open>
  C3. Let page and limit be the values in force (1 and 20 when absent), with page at least 1
  and limit between 1 and 100, and let the filter be one the store accepts. Then the list
  succeeds and changes no table; its books are the shaped rows that remain of the matching
  rows, latest creation first, after the first (page - 1) * limit are dropped and at most
  limit are taken, so they are at most limit and in descending order of creation time;
  total is the number of matching rows; totalPages is the ceiling of total / limit, the
  least number of pages of that size that hold total rows; hasNext is page * limit < total
  and hasPrev is page > 1.
\<close>

theorem getBooks_page:
  assumes "1 \<le> dflt 1 (list_options.page opts)"
    and "1 \<le> dflt 20 (list_options.limit opts)"
    and "dflt 20 (list_options.limit opts) \<le> 100"
    and "where_ok (build_where opts)"
  shows "\<exists>bl s'. getBooks opts s = (Inr bl, s') \<and> tables s' = tables s \<and>
     books bl = map (\<lambda>b. formatBookResponse (with_relations s b))
       (take (nat (dflt 20 (list_options.limit opts)))
         (drop (nat ((dflt 1 (list_options.page opts) - 1) * dflt 20 (list_options.limit opts)))
           (createdAt_desc (filter (where_matches (build_where opts)) (book_rows s))))) \<and>
     length (books bl) \<le> nat (dflt 20 (list_options.limit opts)) \<and>
     sorted_wrt (\<lambda>a b. book.createdAt a \<ge> book.createdAt b) (books bl) \<and>
     pagination.page (pagination bl) = dflt 1 (list_options.page opts) \<and>
     pagination.limit (pagination bl) = dflt 20 (list_options.limit opts) \<and>
     total (pagination bl) = length (filter (where_matches (build_where opts)) (book_rows s)) \<and>
     (\<exists>tp. totalPages (pagination bl) = Number tp \<and>
        tp = \<lceil>rat_of_nat (total (pagination bl)) / rat_of_int (dflt 20 (list_options.limit opts))\<rceil> \<and>
        int (total (pagination bl)) \<le> tp * dflt 20 (list_options.limit opts) \<and>
        (tp - 1) * dflt 20 (list_options.limit opts) < int (total (pagination bl))) \<and>
     hasNext (pagination bl) =
       (dflt 1 (list_options.page opts) * dflt 20 (list_options.limit opts) < int (total (pagination bl))) \<and>
     hasPrev (pagination bl) = (1 < dflt 1 (list_options.page opts))"
proof -
  let ?p = "dflt 1 (list_options.page opts)"
  let ?l = "dflt 20 (list_options.limit opts)"
  let ?w = "build_where opts"
  let ?m = "filter (where_matches ?w) (book_rows s)"
  let ?pg = "take (nat ?l) (drop (nat ((?p - 1) * ?l)) (createdAt_desc ?m))"
  have skip: "\<not> (?p - 1) * ?l < 0" using assms(1,2) by (simp add: mult_less_0_iff)
  have lim: "0 \<le> ?l" "0 < ?l" using assms(2) by simp_all
  have fm: "prisma_book_findMany ?w ((?p - 1) * ?l) ?l s =
      (Inr (map (with_relations s) ?pg), logop (OpFindMany ((?p - 1) * ?l) ?l) s)"
    using skip lim assms(4) by (simp add: prisma_book_findMany_def Let_def)
  have cnt: "prisma_book_count ?w (logop (OpFindMany ((?p - 1) * ?l) ?l) s) =
      (Inr (length ?m), logop OpCount (logop (OpFindMany ((?p - 1) * ?l) ?l) s))"
    using assms(4) by (simp add: prisma_book_count_def Let_def logop_def)
  have gb: "getBooks opts s =
     (Inr \<lparr>books = map formatBookResponse (map (with_relations s) ?pg),
           pagination = \<lparr>pagination.page = ?p, limit = ?l, total = length ?m,
              totalPages = Math_ceil_div (length ?m) ?l,
              hasNext = (?p * ?l < int (length ?m)), hasPrev = (?p > 1)\<rparr>\<rparr>,
      logop OpCount (logop (OpFindMany ((?p - 1) * ?l) ?l) s))"
    unfolding getBooks_def Let_def by (simp only: fm cnt prod.case sum.case)
  have srt: "sorted_wrt (\<lambda>a b. book.createdAt a \<ge> book.createdAt b)
      (map formatBookResponse (map (with_relations s) ?pg))"
    using createdAt_desc_sorted[of ?m]
    by (simp add: sorted_wrt_map o_def createdAt_format sorted_wrt_take sorted_wrt_drop)
  show ?thesis
    using Math_ceil_div_pos[OF lim(2), of "length ?m"] srt
    by (simp add: gb tables_def logop_def o_def)
qed

theorem getBooks_page_witness:
  "(case getBooks second_page_of_two three_books of
      (Inr bl, s') \<Rightarrow>
         map book.id' (books bl) = [''B1''] \<and>
         total (pagination bl) = 3 \<and>
         totalPages (pagination bl) = Number 2 \<and>
         \<not> hasNext (pagination bl) \<and> hasPrev (pagination bl)
    | (Inl err, s') \<Rightarrow> False)"
proof -
  have h1: "1 \<le> dflt 1 (list_options.page second_page_of_two)"
    and h2: "1 \<le> dflt 20 (list_options.limit second_page_of_two)"
    and h3: "dflt 20 (list_options.limit second_page_of_two) \<le> 100"
    and h4: "where_ok (build_where second_page_of_two)"
    by (simp_all add: list_eval)
  from getBooks_page[OF h1 h2 h3 h4, of three_books]
  obtain bl s' where gb: "getBooks second_page_of_two three_books = (Inr bl, s')"
    and bk: "books bl = map (\<lambda>b. formatBookResponse (with_relations three_books b))
       (take (nat (dflt 20 (list_options.limit second_page_of_two)))
         (drop (nat ((dflt 1 (list_options.page second_page_of_two) - 1) *
                 dflt 20 (list_options.limit second_page_of_two)))
           (createdAt_desc (filter (where_matches (build_where second_page_of_two))
              (book_rows three_books)))))"
    and tot: "total (pagination bl) =
        length (filter (where_matches (build_where second_page_of_two)) (book_rows three_books))"
    and tp: "\<exists>tp. totalPages (pagination bl) = Number tp \<and>
        tp = \<lceil>rat_of_nat (total (pagination bl)) /
               rat_of_int (dflt 20 (list_options.limit second_page_of_two))\<rceil> \<and>
        int (total (pagination bl)) \<le> tp * dflt 20 (list_options.limit second_page_of_two) \<and>
        (tp - 1) * dflt 20 (list_options.limit second_page_of_two) < int (total (pagination bl))"
    and hn: "hasNext (pagination bl) =
       (dflt 1 (list_options.page second_page_of_two) * dflt 20 (list_options.limit second_page_of_two)
          < int (total (pagination bl)))"
    and hp: "hasPrev (pagination bl) = (1 < dflt 1 (list_options.page second_page_of_two))"
    by blast
  have t3: "total (pagination bl) = 3" using tot by (simp add: list_eval)
  have ids: "map book.id' (books bl) = [''B1'']" using bk by (simp add: list_eval)
  from tp t3 obtain n where n: "totalPages (pagination bl) = Number n" "3 \<le> n * 2" "(n - 1) * 2 < 3"
    by (auto simp: list_eval)
  then have "n = 2" by arith
  with n t3 hn hp have "totalPages (pagination bl) = Number 2 \<and>
      \<not> hasNext (pagination bl) \<and> hasPrev (pagination bl)"
    by (simp add: list_eval)
  with t3 ids show ?thesis by (simp add: gb)
qed

subsection \<open>The frame of update\<close>

lemmas update_eval = updateBook_def update_data_def prisma_book_findUnique_def
  prisma_book_update_def apply_input_def unique_ok_def with_relations_def formatBookResponse_def
  truthy_def dflt_def logop_def primary_first_def List.map_filter_def Let_def
  input_ok_def write_row_def nested_def column_eval













text \<open>
  The two hypotheses on the payload, and the column of a price, at work: a price of 9.999
  is stored as 10, and an update that carries an \<^verbatim>\<open>id\<close> moves the join rows of the Book to
  the new identifier.
\<close>

lemma updateBook_rounds_price:
  "map book.price (book_rows (snd (updateBook env2 ''B1''
      (no_fields\<lparr>bookData.price := Some (9999 / 1000)\<rparr>) one_book))) = [10]"
  by (simp add: update_eval sample_defs)

lemma updateBook_new_id_moves_join_rows:
  "map BookAuthor.bookId (bookAuthor_rows (snd (updateBook env2 ''B1''
      (no_fields\<lparr>bookData.id' := Some ''B9''\<rparr>) one_book))) = [''B9''] \<and>
   map BookCategory.bookId (bookCategory_rows (snd (updateBook env2 ''B1''
      (no_fields\<lparr>bookData.id' := Some ''B9''\<rparr>) one_book))) = [''B9'']"
  by (simp add: update_eval sample_defs)

subsection \<open>Ratings sent by the client\<close>

lemma createBook_ignores_rating:
  "createBook e (d\<lparr>bookData.averageRating := a, bookData.ratingsCount := r\<rparr>) s = createBook e d s"
proof -
  let ?d = "d\<lparr>bookData.averageRating := a, bookData.ratingsCount := r\<rparr>"
  have 1: "duplicate_check ?d s = duplicate_check d s" by (simp add: duplicate_check_def)
  have 2: "create_data ?d = create_data d" by (simp add: create_data_def)
  have 3: "bookData.authorIds ?d = bookData.authorIds d" by simp
  have 4: "bookData.categoryIds ?d = bookData.categoryIds d" by simp
  show ?thesis unfolding createBook_def 1 2 3 4 ..
qed

text \<open>
  C5. Create never reads \<^verbatim>\<open>averageRating\<close> and \<^verbatim>\<open>ratingsCount\<close> (lemma above), but update
  hands them to the store with the rest of the payload: on a Book rated 0, an update that
  carries \<^verbatim>\<open>averageRating: 5, ratingsCount: 1000\<close> stores 5 and 1000, while the update that
  differs from it only in these two fields leaves 0 and 0.
\<close>

theorem updateBook_stores_client_rating:
  "map book.averageRating (book_rows one_book) = [0] \<and>
   map book.ratingsCount (book_rows one_book) = [0] \<and>
   map book.averageRating (book_rows (snd (updateBook env2 ''B1'' rating_update one_book))) = [5] \<and>
   map book.ratingsCount (book_rows (snd (updateBook env2 ''B1'' rating_update one_book))) = [1000] \<and>
   map book.averageRating (book_rows (snd (updateBook env2 ''B1'' no_fields one_book))) = [0] \<and>
   map book.ratingsCount (book_rows (snd (updateBook env2 ''B1'' no_fields one_book))) = [0]"
  by (simp add: update_eval sample_defs)

subsection \<open>Authentication before authorisation before the controller\<close>

lemma split_on_not_Nil: "split_on c xs \<noteq> []"
  by (induction xs) (auto split: list.splits)

lemma split_on_no_sep: "c \<notin> set b \<Longrightarrow> split_on c b = [b]"
  by (induction b) auto

lemma split_on_append: "c \<notin> set a \<Longrightarrow> split_on c (a @ c # r) = a # split_on c r"
  by (induction a) auto

lemma split_on_parts: "p \<in> set (split_on c xs) \<Longrightarrow> c \<notin> set p"
proof (induction xs arbitrary: p)
  case Nil
  then show ?case by simp
next
  case (Cons x xs)
  then show ?case
    by (cases "split_on c xs") (auto simp: split_on_not_Nil split: if_splits)
qed

lemma split_on_join: "join_with [c] (split_on c xs) = xs"
proof (induction xs)
  case Nil
  show ?case by simp
next
  case (Cons x xs)
  then show ?case
  proof (cases "split_on c xs")
    case Nil
    then show ?thesis by (simp add: split_on_not_Nil)
  next
    case (Cons h t)
    with Cons.IH show ?thesis by (cases t) auto
  qed
qed

lemma split_on_two: "(split_on c xs = [a, b]) = (xs = a @ c # b \<and> c \<notin> set a \<and> c \<notin> set b)"
proof
  assume sp: "split_on c xs = [a, b]"
  from split_on_join[of c xs] sp have "xs = a @ c # b" by simp
  moreover from split_on_parts[of a c xs] split_on_parts[of b c xs] sp
  have "c \<notin> set a" "c \<notin> set b" by simp_all
  ultimately show "xs = a @ c # b \<and> c \<notin> set a \<and> c \<notin> set b" by simp
next
  assume "xs = a @ c # b \<and> c \<notin> set a \<and> c \<notin> set b"
  then show "split_on c xs = [a, b]" by (simp add: split_on_append split_on_no_sep)
qed

text \<open>A header yields a token exactly when it is \<^verbatim>\<open>Bearer\<close>, one space, and a token without spaces.\<close>

lemma bearer_token_Inr:
  "(bearer_token h = Inr tok) = (h = Some (''Bearer '' @ tok) \<and> CHR '' '' \<notin> set tok)"
proof
  assume bt: "bearer_token h = Inr tok"
  then obtain x where h: "h = Some x" and ne: "x \<noteq> []"
    by (cases h) (auto simp: bearer_token_def truthy_def split: if_splits)
  from bt h ne have "split_on CHR '' '' x = [''Bearer'', tok]"
    by (auto simp: bearer_token_def truthy_def dflt_def split: list.splits if_splits)
  then have "x = ''Bearer'' @ CHR '' '' # tok \<and> CHR '' '' \<notin> set tok"
    by (simp only: split_on_two) simp
  with h show "h = Some (''Bearer '' @ tok) \<and> CHR '' '' \<notin> set tok" by simp
next
  assume a: "h = Some (''Bearer '' @ tok) \<and> CHR '' '' \<notin> set tok"
  then have "split_on CHR '' '' (''Bearer'' @ CHR '' '' # tok) = [''Bearer'', tok]"
    by (subst split_on_two) simp
  then have "split_on CHR '' '' (''Bearer '' @ tok) = [''Bearer'', tok]" by simp
  with a show "bearer_token h = Inr tok"
    by (simp add: bearer_token_def truthy_def dflt_def del: split_on.simps)
qed

lemma bearer_token_Inl:
  "bearer_token h = Inl err \<Longrightarrow> \<exists>m. err = UnauthorizedError m"
  by (auto simp: bearer_token_def split: if_splits list.splits)

lemma authenticate_bad_header:
  "bearer_token (authorization req) = Inl err \<Longrightarrow> authenticate verify sec req = Inl err"
  by (simp add: authenticate_def)

lemma authenticate_rejected:
  assumes "bearer_token (authorization req) = Inr tok" and "verify tok sec = Inl f"
  shows "authenticate verify sec req =
     Inl (UnauthorizedError (case f of TokenExpiredError \<Rightarrow> ''Token has expired''
        | JsonWebTokenError \<Rightarrow> ''Invalid token'' | OtherVerifyError \<Rightarrow> ''Authentication failed''))"
  using assms by (cases f) (simp_all add: authenticate_def)

lemma authenticate_verified:
  assumes "bearer_token (authorization req) = Inr tok" and "verify tok sec = Inr c"
  shows "authenticate verify sec req =
     Inr (req\<lparr>user := Some
       \<lparr>req_user.id' =
          (case jwt_claims.id' c of
             Some i \<Rightarrow> Some i
           | None \<Rightarrow> if truthy (sub c) then sub c else None),
        email = jwt_claims.email c,
        role = jwt_claims.role c\<rparr>\<rparr>)"
  using assms by (simp add: authenticate_def)

lemma requireAdmin_user:
  "requireAdmin (req\<lparr>user := Some u\<rparr>) =
     (if req_user.role u = Some ''admin'' then Inr (req\<lparr>user := Some u\<rparr>)
      else Inl (ForbiddenError ''Access denied. Required role: admin''))"
  by (cases "req_user.role u") (auto simp: requireAdmin_def requireRole_def truthy_def dflt_def)

text \<open>
  C9. With a secret configured, every request to a book route gets an answer from the
  router, and: a header that is missing or not of the form \<^verbatim>\<open>Bearer <token>\<close> ends in an
  UnauthorizedError with only the authentication stage run; so does a well-formed header
  whose token the verifier rejects, an expired token giving ``Token has expired''; a
  verified token whose role claim is not \<^verbatim>\<open>admin\<close> ends in the ForbiddenError of the role
  check; in all three cases the store is untouched. The controller runs exactly when the
  header is well formed, the token verifies and its role claim is \<^verbatim>\<open>admin\<close>.
\<close>

theorem book_router_auth:
  assumes "secret = Some sec" and "sec \<noteq> []"
  shows "\<exists>r. book_router verify secret e req s = Some r \<and>
     ((\<forall>tok. \<not> (authorization req = Some (''Bearer '' @ tok) \<and> CHR '' '' \<notin> set tok)) \<longrightarrow>
        stages r = [Authenticate] \<and> (\<exists>m. outcome r = Inl (UnauthorizedError m)) \<and>
        final_store r = s) \<and>
     (\<forall>tok f. authorization req = Some (''Bearer '' @ tok) \<and> CHR '' '' \<notin> set tok \<and>
          verify tok sec = Inl f \<longrightarrow>
        stages r = [Authenticate] \<and> (\<exists>m. outcome r = Inl (UnauthorizedError m)) \<and>
        (f = TokenExpiredError \<longrightarrow> outcome r = Inl (UnauthorizedError ''Token has expired'')) \<and>
        final_store r = s) \<and>
     (\<forall>tok c. authorization req = Some (''Bearer '' @ tok) \<and> CHR '' '' \<notin> set tok \<and>
          verify tok sec = Inr c \<and> jwt_claims.role c \<noteq> Some ''admin'' \<longrightarrow>
        stages r = [Authenticate, RoleCheck] \<and>
        outcome r = Inl (ForbiddenError ''Access denied. Required role: admin'') \<and>
        final_store r = s) \<and>
     (Controller \<in> set (stages r) \<longleftrightarrow>
        (\<exists>tok c. authorization req = Some (''Bearer '' @ tok) \<and> CHR '' '' \<notin> set tok \<and>
           verify tok sec = Inr c \<and> jwt_claims.role c = Some ''admin''))"
proof -
  have at: "authenticateToken verify secret = Some (authenticate verify sec)"
    using assms by (simp add: authenticateToken_def truthy_def dflt_def)
  let ?wf = "\<lambda>tok. authorization req = Some (''Bearer '' @ tok) \<and> CHR '' '' \<notin> set tok"
  show ?thesis
  proof (cases "bearer_token (authorization req)")
    case (Inl err)
    then have nowf: "\<And>tok. \<not> ?wf tok"
      using bearer_token_Inr[of "authorization req"] by auto
    from bearer_token_Inl[OF Inl] obtain m where m: "err = UnauthorizedError m" by blast
    have "book_router verify secret e req s =
        Some \<lparr>stages = [Authenticate], outcome = Inl err, final_store = s\<rparr>"
      by (simp add: book_router_def at authenticate_bad_header[where verify=verify, OF Inl])
    with nowf m show ?thesis by (simp; blast?)
  next
    case (Inr tok)
    then have wf: "?wf tok" by (simp add: bearer_token_Inr)
    have uniq: "\<And>t. ?wf t \<Longrightarrow> t = tok" using wf by simp
    show ?thesis
    proof (cases "verify tok sec")
      case (Inl f)
      let ?m = "case f of TokenExpiredError \<Rightarrow> ''Token has expired''
        | JsonWebTokenError \<Rightarrow> ''Invalid token'' | OtherVerifyError \<Rightarrow> ''Authentication failed''"
      have br: "book_router verify secret e req s =
          Some \<lparr>stages = [Authenticate], outcome = Inl (UnauthorizedError ?m), final_store = s\<rparr>"
        by (simp add: book_router_def at authenticate_rejected[where verify=verify, OF Inr Inl])
      show ?thesis
        unfolding br using wf Inl by (auto dest!: uniq)
    next
      case (Inr c)
      define u where "u =
        \<lparr>req_user.id' =
          (case jwt_claims.id' c of
             Some i \<Rightarrow> Some i
           | None \<Rightarrow> if truthy (sub c) then sub c else None),
         email = jwt_claims.email c,
         role = jwt_claims.role c\<rparr>"
      have au: "authenticate verify sec req = Inr (req\<lparr>user := Some u\<rparr>)"
        unfolding u_def
        by (rule authenticate_verified[where verify=verify, OF \<open>bearer_token (authorization req) = Inr tok\<close> Inr])
      have ru: "req_user.role u = jwt_claims.role c" by (simp add: u_def)
      show ?thesis
      proof (cases "jwt_claims.role c = Some ''admin''")
        case True
        obtain res s1 where h: "handler e (req\<lparr>user := Some u\<rparr>) s = (res, s1)"
          by (cases "handler e (req\<lparr>user := Some u\<rparr>) s") blast
        have br: "book_router verify secret e req s =
            Some \<lparr>stages = [Authenticate, RoleCheck, Controller], outcome = res, final_store = s1\<rparr>"
          using True ru by (simp add: book_router_def at au requireAdmin_user h)
        show ?thesis
          unfolding br using wf Inr True by (auto dest!: uniq)
      next
        case False
        have br: "book_router verify secret e req s =
            Some \<lparr>stages = [Authenticate, RoleCheck],
                  outcome = Inl (ForbiddenError ''Access denied. Required role: admin''),
                  final_store = s\<rparr>"
          using False ru by (simp add: book_router_def at au requireAdmin_user)
        show ?thesis
          unfolding br using wf Inr False by (auto dest!: uniq)
      qed
    qed
  qed
qed

lemmas router_eval = book_router_def authenticateToken_def authenticate_def bearer_token_def
  requireAdmin_def requireRole_def handler_def truthy_def dflt_def
  BookController_create_def BookController_getById_def getBookById_def
  prisma_book_findUnique_def

theorem book_router_auth_witness:
  "(case book_router sample_verify (Some ''s3cret'') env1
           (request_of None (GetOne ''B1'')) one_book of
      Some r \<Rightarrow> stages r = [Authenticate] \<and>
                outcome r = Inl (UnauthorizedError ''No authorization token provided'') \<and>
                final_store r = one_book
    | None \<Rightarrow> False) \<and>
   (case book_router sample_verify (Some ''s3cret'') env1
           (request_of (Some ''Bearer old-token'') (GetOne ''B1'')) one_book of
      Some r \<Rightarrow> stages r = [Authenticate] \<and>
                outcome r = Inl (UnauthorizedError ''Token has expired'')
    | None \<Rightarrow> False) \<and>
   (case book_router sample_verify (Some ''s3cret'') env1
           (request_of (Some ''Bearer reader-token'') (GetOne ''B1'')) one_book of
      Some r \<Rightarrow> stages r = [Authenticate, RoleCheck] \<and>
                outcome r = Inl (ForbiddenError ''Access denied. Required role: admin'') \<and>
                final_store r = one_book
    | None \<Rightarrow> False) \<and>
   (case book_router sample_verify (Some ''s3cret'') env1
           (request_of (Some ''Bearer admin-token'') (GetOne ''B1'')) one_book of
      Some r \<Rightarrow> stages r = [Authenticate, RoleCheck, Controller]
    | None \<Rightarrow> False)"
proof -
  have sec: "Some ''s3cret'' = Some ''s3cret''" "''s3cret'' \<noteq> []" by simp_all
  let ?R = "\<lambda>h. book_router sample_verify (Some ''s3cret'') env1 (request_of h (GetOne ''B1'')) one_book"
  have a: "case ?R None of
      Some r \<Rightarrow> stages r = [Authenticate] \<and>
                outcome r = Inl (UnauthorizedError ''No authorization token provided'') \<and>
                final_store r = one_book
    | None \<Rightarrow> False"
  proof -
    from book_router_auth[OF sec, of sample_verify env1 "request_of None (GetOne ''B1'')" one_book]
    obtain r where r: "?R None = Some r" and
      st: "(\<forall>tok. \<not> (authorization (request_of None (GetOne ''B1'')) = Some (''Bearer '' @ tok)
              \<and> CHR '' '' \<notin> set tok)) \<longrightarrow>
        stages r = [Authenticate] \<and> (\<exists>m. outcome r = Inl (UnauthorizedError m)) \<and>
        final_store r = one_book"
      by blast
    have "\<forall>tok. \<not> (authorization (request_of None (GetOne ''B1'')) = Some (''Bearer '' @ tok)
              \<and> CHR '' '' \<notin> set tok)"
      by (simp add: request_of_def)
    with st have "stages r = [Authenticate]" "final_store r = one_book" by simp_all
    moreover have "outcome (the (?R None)) = Inl (UnauthorizedError ''No authorization token provided'')"
      by (simp add: router_eval request_of_def)
    ultimately show ?thesis by (simp add: r)
  qed
  have b: "case ?R (Some ''Bearer old-token'') of
      Some r \<Rightarrow> stages r = [Authenticate] \<and>
                outcome r = Inl (UnauthorizedError ''Token has expired'')
    | None \<Rightarrow> False"
  proof -
    from book_router_auth[OF sec, of sample_verify env1
        "request_of (Some ''Bearer old-token'') (GetOne ''B1'')" one_book]
    obtain r where r: "?R (Some ''Bearer old-token'') = Some r" and
      st: "\<forall>tok f. authorization (request_of (Some ''Bearer old-token'') (GetOne ''B1'')) =
               Some (''Bearer '' @ tok) \<and> CHR '' '' \<notin> set tok \<and>
          sample_verify tok ''s3cret'' = Inl f \<longrightarrow>
        stages r = [Authenticate] \<and> (\<exists>m. outcome r = Inl (UnauthorizedError m)) \<and>
        (f = TokenExpiredError \<longrightarrow> outcome r = Inl (UnauthorizedError ''Token has expired'')) \<and>
        final_store r = one_book"
      by blast
    have "authorization (request_of (Some ''Bearer old-token'') (GetOne ''B1'')) =
               Some (''Bearer '' @ ''old-token'') \<and> CHR '' '' \<notin> set ''old-token'' \<and>
          sample_verify ''old-token'' ''s3cret'' = Inl TokenExpiredError"
      by (simp add: request_of_def sample_verify_def)
    with st have "stages r = [Authenticate] \<and>
        outcome r = Inl (UnauthorizedError ''Token has expired'')"
      by blast
    then show ?thesis by (simp add: r)
  qed
  have c: "case ?R (Some ''Bearer reader-token'') of
      Some r \<Rightarrow> stages r = [Authenticate, RoleCheck] \<and>
                outcome r = Inl (ForbiddenError ''Access denied. Required role: admin'') \<and>
                final_store r = one_book
    | None \<Rightarrow> False"
  proof -
    from book_router_auth[OF sec, of sample_verify env1
        "request_of (Some ''Bearer reader-token'') (GetOne ''B1'')" one_book]
    obtain r where r: "?R (Some ''Bearer reader-token'') = Some r" and
      st: "\<forall>tok c. authorization (request_of (Some ''Bearer reader-token'') (GetOne ''B1'')) =
               Some (''Bearer '' @ tok) \<and> CHR '' '' \<notin> set tok \<and>
          sample_verify tok ''s3cret'' = Inr c \<and> jwt_claims.role c \<noteq> Some ''admin'' \<longrightarrow>
        stages r = [Authenticate, RoleCheck] \<and>
        outcome r = Inl (ForbiddenError ''Access denied. Required role: admin'') \<and>
        final_store r = one_book"
      by blast
    let ?c = "\<lparr>sub = Some ''u2'', jwt_claims.id' = None,
                email = Some ''reader@bookzilla.com'', role = Some ''reader''\<rparr>"
    have "authorization (request_of (Some ''Bearer reader-token'') (GetOne ''B1'')) =
               Some (''Bearer '' @ ''reader-token'') \<and> CHR '' '' \<notin> set ''reader-token'' \<and>
          sample_verify ''reader-token'' ''s3cret'' = Inr ?c \<and> jwt_claims.role ?c \<noteq> Some ''admin''"
      by (simp add: request_of_def sample_verify_def)
    with st have "stages r = [Authenticate, RoleCheck] \<and>
        outcome r = Inl (ForbiddenError ''Access denied. Required role: admin'') \<and>
        final_store r = one_book"
      by blast
    then show ?thesis by (simp add: r)
  qed
  have d: "case ?R (Some ''Bearer admin-token'') of
      Some r \<Rightarrow> stages r = [Authenticate, RoleCheck, Controller]
    | None \<Rightarrow> False"
    by (simp add: router_eval request_of_def sample_verify_def logop_def sample_defs)
  from a b c d show ?thesis by blast
qed

subsection \<open>Validation and the routes\<close>

lemmas validation_eval = validate_def validationResult_def format_error_def isbn_chain_def
  isbn13_chain_def isbn_pattern_def isbn13_pattern_def is_digit_def truthy_def

text \<open>
  C4. The router mounts the authentication middleware, the role check and the controller, and
  no rule set: \<^verbatim>\<open>createBookValidation\<close> is defined and never used by a route. A POST by an
  admin whose body has every required field and \<^verbatim>\<open>isbn13: "123"\<close>, which the \<^verbatim>\<open>isbn13\<close>
  chain of the rule set reports, reaches the controller, is answered 201, and leaves a
  Book with \<^verbatim>\<open>isbn13\<close> ``123'' in the store.
\<close>

theorem book_router_skips_validation:
  "validate (validationResult [isbn_chain, isbn13_chain] short_isbn13_payload) =
     Some (ValidationError ''Validation failed''
       [\<lparr>field = Some ''isbn13'', message = ''Invalid ISBN-13 format'', value = Some (JStr ''123'')\<rparr>]) \<and>
   (case book_router sample_verify (Some ''s3cret'') env1
           (request_of (Some ''Bearer admin-token'') (PostCreate short_isbn13_payload)) sample_store of
      Some r \<Rightarrow>
        stages r = [Authenticate, RoleCheck, Controller] \<and>
        (case outcome r of Inr resp \<Rightarrow> status resp = Some 201 | Inl err \<Rightarrow> False) \<and>
        map book.isbn13 (book_rows (final_store r)) = [Some ''123''] \<and>
        oplog (final_store r) = [OpFindFirst [Isbn13Is ''123''], OpCreate]
    | None \<Rightarrow> False)"
  by (simp add: validation_eval router_eval create_eval sample_defs)

text \<open>
  C8. The ValidationError that \<^verbatim>\<open>validate\<close> raises has one entry for each error the
  validator collected, in the same order, with the error's field (its \<^verbatim>\<open>path\<close>, or its
  \<^verbatim>\<open>param\<close> when the path is empty or absent), message and value; there is an error
  exactly when some chain of the rule set reports one, and then the entries are those of
  the first chain of the rule set, then those of the second, and so on: all of them, not
  the first only.
\<close>

theorem validate_lists_every_error:
  "validate (validationResult rule_set payload) =
     (if \<forall>c \<in> set rule_set. c payload = [] then None
      else Some (ValidationError ''Validation failed''
             (concat (map (\<lambda>c. map format_error (c payload)) rule_set))))
   \<and> (\<forall>errs. errs \<noteq> [] \<longrightarrow>
        (\<exists>fs. validate errs = Some (ValidationError ''Validation failed'' fs) \<and>
           length fs = length errs \<and>
           (\<forall>k < length errs.
              field (fs ! k) = (if truthy (path (errs ! k)) then path (errs ! k) else param (errs ! k)) \<and>
              message (fs ! k) = msg (errs ! k) \<and>
              field_error.value (fs ! k) = validator_error.value (errs ! k))))"
proof (intro conjI allI impI)
  show "validate (validationResult rule_set payload) =
     (if \<forall>c \<in> set rule_set. c payload = [] then None
      else Some (ValidationError ''Validation failed''
             (concat (map (\<lambda>c. map format_error (c payload)) rule_set))))"
    by (auto simp: validate_def validationResult_def map_concat o_def)
next
  fix errs :: "validator_error list"
  assume "errs \<noteq> []"
  then show "\<exists>fs. validate errs = Some (ValidationError ''Validation failed'' fs) \<and>
           length fs = length errs \<and>
           (\<forall>k < length errs.
              field (fs ! k) = (if truthy (path (errs ! k)) then path (errs ! k) else param (errs ! k)) \<and>
              message (fs ! k) = msg (errs ! k) \<and>
              field_error.value (fs ! k) = validator_error.value (errs ! k))"
    by (simp add: validate_def format_error_def)
qed

theorem validate_lists_every_error_witness:
  "validate (validationResult [isbn_chain, isbn13_chain] two_bad_isbns_payload) =
     Some (ValidationError ''Validation failed''
       [\<lparr>field = Some ''isbn'', message = ''Invalid ISBN format'', value = Some (JStr ''12'')\<rparr>,
        \<lparr>field = Some ''isbn13'', message = ''Invalid ISBN-13 format'', value = Some (JStr ''123'')\<rparr>])"
proof -
  have "\<not> (\<forall>c \<in> set [isbn_chain, isbn13_chain]. c two_bad_isbns_payload = [])"
    by (simp add: validation_eval sample_defs)
  with validate_lists_every_error[of "[isbn_chain, isbn13_chain]" two_bad_isbns_payload]
  have "validate (validationResult [isbn_chain, isbn13_chain] two_bad_isbns_payload) =
      Some (ValidationError ''Validation failed''
             (concat (map (\<lambda>c. map format_error (c two_bad_isbns_payload)) [isbn_chain, isbn13_chain])))"
    by presburger
  then show ?thesis by (simp add: validation_eval sample_defs)
qed

subsection \<open>Query parameters of the list\<close>
















text \<open>
  The double nearest to the integer that the digits denote: \<^verbatim>\<open>parseInt\<close> reads
  9007199254740993, which is \<open>2 ^ 53 + 1\<close>, as 9007199254740992; and a no-break space before
  the digits is skipped as white space.
\<close>

lemma parseInt_rounds_to_double:
  "parseInt (Some (QString (units ''9007199254740993''))) = Number 9007199254740992"
  by (simp add: parseInt_def parseInt_string_def units_def is_space_def is_decimal_digit_def
      strip_sign_def digits_value_def nearest_double_def bit_length.simps Let_def)

lemma parseInt_skips_no_break_space:
  "parseInt (Some (QString [160, 50])) = Number 2"
  by (simp add: parseInt_def parseInt_string_def is_space_def is_decimal_digit_def
      strip_sign_def digits_value_def nearest_double_def)




end
